theory Spec2Isabelle
  imports Complex_Main
begin

section \<open>Tensors, errors and randomness\<close>

text \<open>
  The notebooks compute with PyTorch tensors of floating-point numbers. The embedding
  works over the real numbers: rounding and the values \<open>inf\<close> and \<open>nan\<close> are not
  represented. Where the source would go on with a value that is not a real number
  (a division by zero inside a tensor operation), the model stops with \<open>NonFinite\<close>:
  this is not an exception of the source, which raises nothing there and returns tensors
  with \<open>inf\<close> or \<open>nan\<close> entries; it marks the runs for which the model has no value.
  The finite range of \<open>float32\<close> (overflow of large products, underflow of small
  exponentials) is represented for the attention function, in the section on attention in
  \<open>float32\<close> range below.

  A tensor is its shape and its elements. Every operation of the transformer acts on the
  two trailing axes and treats the leading axes (batch, heads) pointwise, so the record
  holds the two trailing axes; heads and batch elements are lists of such tensors.
  A one-dimensional tensor of \<open>n\<close> elements is the tensor with one row and \<open>n\<close> columns,
  which is how broadcasting against a matrix reads it.
\<close>

datatype error =
    AssertionError
  | ZeroDivisionError
  | IndexError
  | ValueError
  | RuntimeError
  | NonFinite

fun bnd :: "error + 'a \<Rightarrow> ('a \<Rightarrow> error + 'b) \<Rightarrow> error + 'b" where
  "bnd (Inl e) f = Inl e"
| "bnd (Inr x) f = f x"

record 'a tensor =
  nrows :: nat
  ncols :: nat
  elem :: "nat \<Rightarrow> nat \<Rightarrow> 'a"

definition tensor_of :: "'a list list \<Rightarrow> 'a tensor" where
  \<comment> \<open>The tensor written as a nested list literal, \<open>torch.tensor([[..], [..]])\<close>.\<close>
  "tensor_of xs =
     \<lparr>nrows = length xs,
      ncols = (case xs of [] \<Rightarrow> 0 | r # _ \<Rightarrow> length r),
      elem = (\<lambda>i j. xs ! i ! j)\<rparr>"

definition teq :: "'a tensor \<Rightarrow> 'a tensor \<Rightarrow> bool" where
  \<comment> \<open>Equality of tensors as values: the same shape and the same element at every position.\<close>
  "teq a b \<longleftrightarrow>
     nrows a = nrows b \<and> ncols a = ncols b \<and>
     (\<forall>i<nrows a. \<forall>j<ncols a. elem a i j = elem b i j)"

definition tmap :: "('a \<Rightarrow> 'b) \<Rightarrow> 'a tensor \<Rightarrow> 'b tensor" where
  \<comment> \<open>An elementwise operation.\<close>
  "tmap f a = \<lparr>nrows = nrows a, ncols = ncols a, elem = (\<lambda>i j. f (elem a i j))\<rparr>"

definition transpose_t :: "'a tensor \<Rightarrow> 'a tensor" where
  \<comment> \<open>\<open>t.transpose(-2, -1)\<close>\<close>
  "transpose_t a = \<lparr>nrows = ncols a, ncols = nrows a, elem = (\<lambda>i j. elem a j i)\<rparr>"

definition matmul :: "real tensor \<Rightarrow> real tensor \<Rightarrow> error + real tensor" where
  \<comment> \<open>\<open>torch.matmul\<close> on the trailing axes; mismatched inner sizes raise.\<close>
  "matmul a b =
     (if ncols a = nrows b
      then Inr \<lparr>nrows = nrows a, ncols = ncols b,
                elem = (\<lambda>i j. \<Sum>l<ncols a. elem a i l * elem b l j)\<rparr>
      else Inl RuntimeError)"

definition div_scalar :: "real tensor \<Rightarrow> real \<Rightarrow> error + real tensor" where
  \<comment> \<open>A tensor divided by a Python float. The source does not raise on a zero divisor:
      it returns \<open>inf\<close>/\<open>nan\<close> entries, for which the model has no value.\<close>
  "div_scalar a c =
     (if c = 0 \<and> nrows a * ncols a \<noteq> 0 then Inl NonFinite
      else Inr (tmap (\<lambda>x. x / c) a))"

definition broadcast_dim :: "nat \<Rightarrow> nat \<Rightarrow> error + nat" where
  \<comment> \<open>The broadcasting rule for one axis: equal sizes, or one of them is 1.\<close>
  "broadcast_dim a b =
     (if a = b then Inr a
      else if a = 1 then Inr b
      else if b = 1 then Inr a
      else Inl RuntimeError)"

definition pick :: "nat \<Rightarrow> nat \<Rightarrow> nat" where
  \<comment> \<open>The index read in an axis of size \<open>n\<close> when the result's index is \<open>i\<close>:
      an axis of size 1 is repeated.\<close>
  "pick n i = (if n = 1 then 0 else i)"

definition broadcast_op ::
  "('a \<Rightarrow> 'b \<Rightarrow> 'c) \<Rightarrow> 'a tensor \<Rightarrow> 'b tensor \<Rightarrow> error + 'c tensor" where
  \<comment> \<open>A binary elementwise operator (\<open>+\<close>, \<open>-\<close>, \<open>*\<close>) with broadcasting.\<close>
  "broadcast_op f a b =
     bnd (broadcast_dim (nrows a) (nrows b)) (\<lambda>r.
     bnd (broadcast_dim (ncols a) (ncols b)) (\<lambda>c.
       Inr \<lparr>nrows = r, ncols = c,
            elem = (\<lambda>i j. f (elem a (pick (nrows a) i) (pick (ncols a) j))
                             (elem b (pick (nrows b) i) (pick (ncols b) j)))\<rparr>))"

definition tdiv :: "real tensor \<Rightarrow> real tensor \<Rightarrow> error + real tensor" where
  \<comment> \<open>Elementwise division with broadcasting. The source does not raise on a zero in the
      divisor: it returns \<open>inf\<close>/\<open>nan\<close> entries, for which the model has no value.\<close>
  "tdiv a b =
     (if \<exists>i<nrows b. \<exists>j<ncols b. elem b i j = 0 then Inl NonFinite
      else broadcast_op (/) a b)"

definition masked_fill :: "real tensor \<Rightarrow> bool tensor \<Rightarrow> real \<Rightarrow> error + real tensor" where
  \<comment> \<open>\<open>t.masked_fill(m, v)\<close>: the tensor and the mask are broadcast against each other.\<close>
  "masked_fill t m v = broadcast_op (\<lambda>x b. if b then v else x) t m"

definition eq0 :: "bool tensor \<Rightarrow> bool tensor" where
  \<comment> \<open>\<open>mask == 0\<close> on a boolean mask: true exactly where the mask is false.\<close>
  "eq0 m = tmap Not m"

definition softmax :: "real tensor \<Rightarrow> real tensor" where
  \<comment> \<open>\<open>torch.nn.functional.softmax(t, dim=-1)\<close>\<close>
  "softmax t =
     \<lparr>nrows = nrows t, ncols = ncols t,
      elem = (\<lambda>i j. exp (elem t i j) / (\<Sum>k<ncols t. exp (elem t i k)))\<rparr>"

definition log_softmax :: "real tensor \<Rightarrow> real tensor" where
  \<comment> \<open>\<open>torch.nn.functional.log_softmax(t, dim=-1)\<close>\<close>
  "log_softmax t =
     \<lparr>nrows = nrows t, ncols = ncols t,
      elem = (\<lambda>i j. elem t i j - ln (\<Sum>k<ncols t. exp (elem t i k)))\<rparr>"

text \<open>
  Randomness is an explicit input. A value of type \<open>rng\<close> answers, for every position of
  every tensor a dropout module is applied to, whether the element is kept; \<open>sub \<omega> k\<close> is
  the independent part of the stream handed to the \<open>k\<close>-th consumer.
\<close>

type_synonym rng = "nat list \<Rightarrow> bool"

definition sub :: "rng \<Rightarrow> nat \<Rightarrow> rng" where
  "sub \<omega> k = (\<lambda>idx. \<omega> (k # idx))"

section \<open>Scaled dot-product attention\<close>

definition attention ::
  "real tensor \<Rightarrow> real tensor \<Rightarrow> real tensor \<Rightarrow> bool tensor option \<Rightarrow>
   (real tensor \<Rightarrow> real tensor) option \<Rightarrow> error + (real tensor \<times> real tensor)" where
  "attention query key value msk dropout =
     (let d_k = ncols query in
      bnd (matmul query (transpose_t key)) (\<lambda>qk.
      bnd (div_scalar qk (sqrt (real d_k))) (\<lambda>scores.
      bnd (case msk of None \<Rightarrow> Inr scores
           | Some m \<Rightarrow> masked_fill scores (eq0 m) (- (10 ^ 9))) (\<lambda>scores.
        let p_attn = softmax scores;
            p_attn = (case dropout of None \<Rightarrow> p_attn | Some f \<Rightarrow> f p_attn)
        in bnd (matmul p_attn value) (\<lambda>x. Inr (x, p_attn))))))"

text \<open>
  The same computation written from the specification's description: raw alignment scores
  scaled by \<open>1 / sqrt d_k\<close>, the sentinel where the mask is false, a row-wise
  normalisation in the numerically stable form (the row maximum is subtracted before
  exponentiating), and the weighted sum of the values.
\<close>

definition scaled_score :: "real tensor \<Rightarrow> real tensor \<Rightarrow> nat \<Rightarrow> nat \<Rightarrow> real" where
  "scaled_score query key i j =
     (\<Sum>l<ncols query. elem query i l * elem key j l) / sqrt (real (ncols query))"

definition masked_score ::
  "real tensor \<Rightarrow> real tensor \<Rightarrow> bool tensor option \<Rightarrow> nat \<Rightarrow> nat \<Rightarrow> real" where
  "masked_score query key msk i j =
     (case msk of
        None \<Rightarrow> scaled_score query key i j
      | Some m \<Rightarrow>
          if elem m (pick (nrows m) i) (pick (ncols m) j)
          then scaled_score query key i j else - (10 ^ 9))"



definition mask_fits :: "bool tensor option \<Rightarrow> nat \<Rightarrow> nat \<Rightarrow> bool" where
  \<comment> \<open>No mask, or a mask that broadcasts to \<open>n\<close> query rows and \<open>m\<close> key columns.\<close>
  "mask_fits msk n m \<longleftrightarrow>
     (case msk of
        None \<Rightarrow> True
      | Some mk \<Rightarrow> (nrows mk = n \<or> nrows mk = 1) \<and> (ncols mk = m \<or> ncols mk = 1))"



section \<open>Attention in \<open>float32\<close> range\<close>

text \<open>
  The definition of \<open>attention\<close> above computes in exact arithmetic. The tensors of the
  source are \<open>float32\<close>, and two effects of the finite range of that format are visible
  in what \<open>attention\<close> returns:

    \<^item> a product or a sum beyond the largest finite \<open>float32\<close> is \<open>inf\<close>, and the softmax of
      a row with such a score is \<open>nan\<close> in every position;

    \<^item> an exponential below half the smallest positive \<open>float32\<close> (which is
      \<open>1 / 2 ^ 149\<close>) is rounded to zero. \<open>torch\<close>'s softmax subtracts the row maximum
      before it exponentiates, so the weight of a score that lies far enough below the
      row maximum is exactly \<open>0.0\<close>.

  \<open>attention_f32\<close> is the same code with these two effects: the matrix products stop with
  \<open>NonFinite\<close> where the products of an entry, added up in absolute value, exceed the
  largest finite \<open>float32\<close> (within that bound no partial sum overflows, in whatever
  order the products are added), and the softmax is the max-subtraction form with the
  exponential that underflows. Rounding is still not represented.
\<close>

definition float32_max :: real where
  \<comment> \<open>The largest finite \<open>float32\<close>: 24 binary digits one, at the largest exponent.\<close>
  "float32_max = (2 ^ 24 - 1) * 2 ^ 104"

definition in_range_f32 :: "real tensor \<Rightarrow> bool" where
  \<comment> \<open>Every entry is a finite \<open>float32\<close> as far as its magnitude goes.\<close>
  "in_range_f32 t \<longleftrightarrow> (\<forall>i\<in>{..<nrows t}. \<forall>j\<in>{..<ncols t}. \<bar>elem t i j\<bar> \<le> float32_max)"

definition abs_products :: "real tensor \<Rightarrow> real tensor \<Rightarrow> nat \<Rightarrow> nat \<Rightarrow> real" where
  \<comment> \<open>The products that make up entry \<open>(i, j)\<close> of the matrix product, added up in absolute
      value: a bound of every partial sum of that entry.\<close>
  "abs_products a b i j = (\<Sum>l<ncols a. \<bar>elem a i l * elem b l j\<bar>)"

definition matmul_f32 :: "real tensor \<Rightarrow> real tensor \<Rightarrow> error + real tensor" where
  \<comment> \<open>\<open>torch.matmul\<close> on \<open>float32\<close> tensors. The source does not raise on overflow: it
      returns \<open>inf\<close>/\<open>nan\<close> entries, for which the model has no value. The model stops as
      soon as the bound of the partial sums leaves the range; the source may still return
      finite weights there (where products of opposite signs cancel, or where the mask
      replaces the score that overflowed).\<close>
  "matmul_f32 a b =
     bnd (matmul a b) (\<lambda>c.
       if \<forall>i\<in>{..<nrows a}. \<forall>j\<in>{..<ncols b}. abs_products a b i j \<le> float32_max
       then Inr c else Inl NonFinite)"

definition exp_f32 :: "real \<Rightarrow> real" where
  \<comment> \<open>The exponential as far as underflow goes: a value of at most \<open>1 / 2 ^ 150\<close>, half the
      smallest positive \<open>float32\<close>, is rounded to zero.\<close>
  "exp_f32 x = (if exp x \<le> 1 / 2 ^ 150 then 0 else exp x)"

definition row_max :: "real tensor \<Rightarrow> nat \<Rightarrow> real" where
  "row_max t i = Max (elem t i ` {..<ncols t})"

definition softmax_f32 :: "real tensor \<Rightarrow> real tensor" where
  \<comment> \<open>\<open>torch.nn.functional.softmax(t, dim=-1)\<close> as \<open>torch\<close> computes it: the row maximum is
      subtracted, the differences are exponentiated and divided by their sum.\<close>
  "softmax_f32 t =
     \<lparr>nrows = nrows t, ncols = ncols t,
      elem = (\<lambda>i j. exp_f32 (elem t i j - row_max t i) /
                     (\<Sum>k<ncols t. exp_f32 (elem t i k - row_max t i)))\<rparr>"

definition attention_f32 ::
  "real tensor \<Rightarrow> real tensor \<Rightarrow> real tensor \<Rightarrow> bool tensor option \<Rightarrow>
   (real tensor \<Rightarrow> real tensor) option \<Rightarrow> error + (real tensor \<times> real tensor)" where
  "attention_f32 query key value msk dropout =
     (let d_k = ncols query in
      bnd (matmul_f32 query (transpose_t key)) (\<lambda>qk.
      bnd (div_scalar qk (sqrt (real d_k))) (\<lambda>scores.
      bnd (case msk of None \<Rightarrow> Inr scores
           | Some m \<Rightarrow> masked_fill scores (eq0 m) (- (10 ^ 9))) (\<lambda>scores.
        let p_attn = softmax_f32 scores;
            p_attn = (case dropout of None \<Rightarrow> p_attn | Some f \<Rightarrow> f p_attn)
        in bnd (matmul_f32 p_attn value) (\<lambda>x. Inr (x, p_attn))))))"

definition row_sum :: "real tensor \<Rightarrow> nat \<Rightarrow> real" where
  \<comment> \<open>The sum of row \<open>i\<close>, \<open>t.sum(dim=-1)[i]\<close>.\<close>
  "row_sum t i = (\<Sum>j<ncols t. elem t i j)"

definition keep_all :: rng where
  \<comment> \<open>The draw in which dropout keeps every element.\<close>
  "keep_all idx = True"

section \<open>Modules\<close>

text \<open>
  Each class of the notebook is a record of its attributes and a function for its
  \<open>forward\<close> method; a constructor that can raise returns an \<open>error + module\<close>.
  Field names are global in a theory, so every field carries its class's initials.
  The values a constructor draws at random are an explicit input of type \<open>init\<close>,
  split among the sub-modules with \<open>subi\<close>.
\<close>

type_synonym init = "nat list \<Rightarrow> real"

definition subi :: "init \<Rightarrow> nat \<Rightarrow> init" where
  "subi \<rho> k = (\<lambda>idx. \<rho> (k # idx))"

definition random_tensor :: "init \<Rightarrow> nat \<Rightarrow> nat \<Rightarrow> real tensor" where
  "random_tensor \<rho> r c = \<lparr>nrows = r, ncols = c, elem = (\<lambda>i j. \<rho> [i, j])\<rparr>"

definition const_tensor :: "'a \<Rightarrow> nat \<Rightarrow> nat \<Rightarrow> 'a tensor" where
  "const_tensor v r c = \<lparr>nrows = r, ncols = c, elem = (\<lambda>i j. v)\<rparr>"

fun traverse :: "('a \<Rightarrow> error + 'b) \<Rightarrow> 'a list \<Rightarrow> error + 'b list" where
  "traverse f [] = Inr []"
| "traverse f (x # xs) = bnd (f x) (\<lambda>y. bnd (traverse f xs) (\<lambda>ys. Inr (y # ys)))"

definition getitem :: "'a list \<Rightarrow> nat \<Rightarrow> error + 'a" where
  "getitem xs i = (if i < length xs then Inr (xs ! i) else Inl IndexError)"

definition clones :: "'a \<Rightarrow> int \<Rightarrow> 'a list" where
  \<comment> \<open>\<open>n\<close> deep copies; \<open>range(n)\<close> is empty for a negative \<open>n\<close>.\<close>
  "clones m n = replicate (nat n) m"

subsection \<open>Dropout\<close>

record Dropout =
  do_p :: real
  do_training :: bool

definition Dropout_init :: "real \<Rightarrow> error + Dropout" where
  \<comment> \<open>\<open>torch.nn.Dropout(p)\<close>; a new module is in training mode.\<close>
  "Dropout_init p =
     (if p < 0 \<or> 1 < p then Inl ValueError
      else Inr \<lparr>do_p = p, do_training = True\<rparr>)"

definition Dropout_forward :: "Dropout \<Rightarrow> rng \<Rightarrow> real tensor \<Rightarrow> real tensor" where
  \<comment> \<open>In training mode an element is zeroed with probability \<open>p\<close> and the kept ones are
      scaled by \<open>1 / (1 - p)\<close>; in evaluation mode the input is returned.\<close>
  "Dropout_forward d \<omega> x =
     (if do_training d
      then \<lparr>nrows = nrows x, ncols = ncols x,
            elem = (\<lambda>i j. if do_p d = 1 \<or> \<not> \<omega> [i, j] then 0
                           else elem x i j / (1 - do_p d))\<rparr>
      else x)"

subsection \<open>Linear\<close>

record Linear =
  lin_weight :: "real tensor"
  lin_bias :: "real tensor"

definition Linear_init :: "init \<Rightarrow> int \<Rightarrow> int \<Rightarrow> error + Linear" where
  \<comment> \<open>\<open>torch.nn.Linear(in_features, out_features)\<close>: a weight of shape
      \<open>[out_features, in_features]\<close> and a bias of \<open>out_features\<close> elements, drawn at
      random. A negative size raises; a zero size is taken to be accepted (releases of
      the library differ there, and no result below depends on it).\<close>
  "Linear_init \<rho> in_features out_features =
     (if in_features < 0 \<or> out_features < 0 then Inl RuntimeError
      else Inr \<lparr>lin_weight = random_tensor (subi \<rho> 0) (nat out_features) (nat in_features),
                lin_bias = random_tensor (subi \<rho> 1) 1 (nat out_features)\<rparr>)"

definition Linear_forward :: "Linear \<Rightarrow> real tensor \<Rightarrow> error + real tensor" where
  "Linear_forward l x =
     bnd (matmul x (transpose_t (lin_weight l))) (\<lambda>y. broadcast_op (+) y (lin_bias l))"

subsection \<open>MultiHeadedAttention\<close>

record MultiHeadedAttention =
  mha_d_k :: int
  mha_h :: int
  mha_fc_layers :: "Linear list"
  mha_attn :: "real tensor list option"
  mha_dropout :: Dropout

definition MultiHeadedAttention_init ::
  "init \<Rightarrow> int \<Rightarrow> int \<Rightarrow> real \<Rightarrow> error + MultiHeadedAttention" where
  "MultiHeadedAttention_init \<rho> h d_model dropout =
     (if h = 0 then Inl ZeroDivisionError
      else if d_model mod h \<noteq> 0 then Inl AssertionError
      else
        bnd (Linear_init \<rho> d_model d_model) (\<lambda>fc.
        bnd (Dropout_init dropout) (\<lambda>d.
          Inr \<lparr>mha_d_k = d_model div h, mha_h = h,
               mha_fc_layers = clones fc 4,
               mha_attn = None,
               mha_dropout = d\<rparr>)))"

definition flat :: "'a tensor \<Rightarrow> nat \<Rightarrow> 'a" where
  \<comment> \<open>The \<open>n\<close>-th element of a contiguous tensor in row-major order.\<close>
  "flat y n = elem y (n div ncols y) (n mod ncols y)"

definition view_heads :: "int \<Rightarrow> int \<Rightarrow> real tensor \<Rightarrow> error + real tensor list" where
  \<comment> \<open>\<open>y.view(batch, -1, h, d_k).transpose(1, 2)\<close> for one batch element: the list of
      the \<open>h\<close> per-head tensors. A size that is not positive, or that does not divide
      the number of elements, raises.\<close>
  "view_heads h d_k y =
     (let total = nrows y * ncols y; w = nat h * nat d_k in
      if h \<le> 0 \<or> d_k \<le> 0 \<or> total mod w \<noteq> 0 then Inl RuntimeError
      else Inr (map (\<lambda>a. \<lparr>nrows = total div w, ncols = nat d_k,
                            elem = (\<lambda>i c. flat y ((i * nat h + a) * nat d_k + c))\<rparr>)
                    [0..<nat h]))"

definition concat_heads :: "int \<Rightarrow> int \<Rightarrow> real tensor list \<Rightarrow> error + real tensor" where
  \<comment> \<open>\<open>x.transpose(1, 2).contiguous().view(batch, -1, h * d_k)\<close> for one batch element,
      on \<open>h\<close> per-head tensors of \<open>d_k\<close> columns each.\<close>
  "concat_heads h d_k xs =
     (if h \<le> 0 \<or> d_k \<le> 0 then Inl RuntimeError
      else Inr \<lparr>nrows = (case xs of [] \<Rightarrow> 0 | x # _ \<Rightarrow> nrows x),
                ncols = nat h * nat d_k,
                elem = (\<lambda>i c. elem (xs ! (c div nat d_k)) i (c mod nat d_k))\<rparr>)"

definition MultiHeadedAttention_forward ::
  "MultiHeadedAttention \<Rightarrow> rng \<Rightarrow> real tensor \<Rightarrow> real tensor \<Rightarrow> real tensor \<Rightarrow>
   bool tensor option \<Rightarrow> error + (real tensor \<times> MultiHeadedAttention)" where
  \<comment> \<open>Returns the output and the module with \<open>self.attn\<close> updated. \<open>mask.unsqueeze(1)\<close>
      adds the head axis: every head gets the same mask.\<close>
  "MultiHeadedAttention_forward self \<omega> query key value msk =
     bnd (traverse (\<lambda>(l, x). bnd (Linear_forward l x) (view_heads (mha_h self) (mha_d_k self)))
            (zip (mha_fc_layers self) [query, key, value])) (\<lambda>projections.
     case projections of
       [query, key, value] \<Rightarrow>
         bnd (traverse (\<lambda>a. attention (query ! a) (key ! a) (value ! a) msk
                               (Some (Dropout_forward (mha_dropout self) (sub \<omega> a))))
                [0..<length query]) (\<lambda>heads.
         bnd (concat_heads (mha_h self) (mha_d_k self) (map fst heads)) (\<lambda>x.
         bnd (case mha_fc_layers self of [] \<Rightarrow> Inl IndexError
              | _ \<Rightarrow> Linear_forward (last (mha_fc_layers self)) x) (\<lambda>y.
           Inr (y, self\<lparr>mha_attn := Some (map snd heads)\<rparr>))))
     | _ \<Rightarrow> Inl ValueError)"

definition head_projection ::
  "MultiHeadedAttention \<Rightarrow> Linear \<Rightarrow> real tensor \<Rightarrow> error + real tensor list" where
  \<comment> \<open>One of the three projections of the forward pass, split into its heads:
      \<open>l(x).view(batch_samples, -1, self.h, self.d_k).transpose(1, 2)\<close>.\<close>
  "head_projection self l x = bnd (Linear_forward l x) (view_heads (mha_h self) (mha_d_k self))"

subsection \<open>PositionwiseFFN\<close>

record PositionwiseFFN =
  ffn_w_1 :: Linear
  ffn_w_2 :: Linear
  ffn_dropout :: Dropout

definition PositionwiseFFN_init :: "init \<Rightarrow> int \<Rightarrow> int \<Rightarrow> real \<Rightarrow> error + PositionwiseFFN" where
  "PositionwiseFFN_init \<rho> d_model d_ff dropout =
     bnd (Linear_init (subi \<rho> 0) d_model d_ff) (\<lambda>w1.
     bnd (Linear_init (subi \<rho> 1) d_ff d_model) (\<lambda>w2.
     bnd (Dropout_init dropout) (\<lambda>d.
       Inr \<lparr>ffn_w_1 = w1, ffn_w_2 = w2, ffn_dropout = d\<rparr>)))"

definition relu :: "real tensor \<Rightarrow> real tensor" where
  "relu x = tmap (\<lambda>v. max 0 v) x"

definition PositionwiseFFN_forward ::
  "PositionwiseFFN \<Rightarrow> rng \<Rightarrow> real tensor \<Rightarrow> error + real tensor" where
  "PositionwiseFFN_forward self \<omega> x =
     bnd (Linear_forward (ffn_w_1 self) x) (\<lambda>y.
       Linear_forward (ffn_w_2 self) (Dropout_forward (ffn_dropout self) \<omega> (relu y)))"

subsection \<open>Embeddings\<close>

record Embeddings =
  emb_lut :: "real tensor"
  emb_d_model :: int

definition Embeddings_init :: "init \<Rightarrow> int \<Rightarrow> int \<Rightarrow> error + Embeddings" where
  \<comment> \<open>\<open>torch.nn.Embedding(vocab_size, d_model)\<close> draws a table of \<open>vocab_size\<close> rows.\<close>
  "Embeddings_init \<rho> d_model vocab_size =
     (if vocab_size < 0 \<or> d_model < 0 then Inl RuntimeError
      else Inr \<lparr>emb_lut = random_tensor \<rho> (nat vocab_size) (nat d_model),
                emb_d_model = d_model\<rparr>)"

definition embedding :: "real tensor \<Rightarrow> nat list \<Rightarrow> error + real tensor" where
  \<comment> \<open>The table lookup of \<open>torch.nn.Embedding\<close> on a sequence of token ids.\<close>
  "embedding lut xs =
     (if \<forall>t \<in> set xs. t < nrows lut
      then Inr \<lparr>nrows = length xs, ncols = ncols lut, elem = (\<lambda>i j. elem lut (xs ! i) j)\<rparr>
      else Inl IndexError)"

definition Embeddings_forward :: "Embeddings \<Rightarrow> nat list \<Rightarrow> error + real tensor" where
  "Embeddings_forward self x =
     bnd (embedding (emb_lut self) x) (\<lambda>e.
       if emb_d_model self < 0 then Inl ValueError
       else Inr (tmap (\<lambda>v. v * sqrt (real_of_int (emb_d_model self))) e))"

subsection \<open>LayerNorm\<close>

record LayerNorm =
  ln_a_2 :: "real tensor"
  ln_b_2 :: "real tensor"
  ln_eps :: real

definition LayerNorm_init :: "int \<Rightarrow> error + LayerNorm" where
  "LayerNorm_init features =
     (if features < 0 then Inl RuntimeError
      else Inr \<lparr>ln_a_2 = const_tensor 1 1 (nat features),
                ln_b_2 = const_tensor 0 1 (nat features),
                ln_eps = 1 / 10 ^ 6\<rparr>)"

definition row_mean :: "real tensor \<Rightarrow> nat \<Rightarrow> real" where
  "row_mean x i = (\<Sum>j<ncols x. elem x i j) / real (ncols x)"

definition row_std :: "real tensor \<Rightarrow> nat \<Rightarrow> real" where
  \<comment> \<open>The unbiased estimate \<open>torch.std\<close> computes: the divisor is \<open>n - 1\<close>.\<close>
  "row_std x i =
     sqrt ((\<Sum>j<ncols x. (elem x i j - row_mean x i)\<^sup>2) / real (ncols x - 1))"

definition mean_last :: "real tensor \<Rightarrow> error + real tensor" where
  \<comment> \<open>\<open>x.mean(-1, keepdim=True)\<close>. The source does not raise on a row of no elements:
      its mean is \<open>nan\<close>, for which the model has no value.\<close>
  "mean_last x =
     (if ncols x = 0 \<and> 0 < nrows x then Inl NonFinite
      else Inr \<lparr>nrows = nrows x, ncols = 1, elem = (\<lambda>i j. row_mean x i)\<rparr>)"

definition std_last :: "real tensor \<Rightarrow> error + real tensor" where
  \<comment> \<open>\<open>x.std(-1, keepdim=True)\<close>. The source does not raise on a row of fewer than two
      elements: its deviation is \<open>nan\<close>, for which the model has no value.\<close>
  "std_last x =
     (if ncols x < 2 \<and> 0 < nrows x then Inl NonFinite
      else Inr \<lparr>nrows = nrows x, ncols = 1, elem = (\<lambda>i j. row_std x i)\<rparr>)"

definition LayerNorm_forward :: "LayerNorm \<Rightarrow> real tensor \<Rightarrow> error + real tensor" where
  "LayerNorm_forward self x =
     bnd (mean_last x) (\<lambda>mean.
     bnd (std_last x) (\<lambda>std.
     bnd (broadcast_op (-) x mean) (\<lambda>centred.
     bnd (broadcast_op (*) (ln_a_2 self) centred) (\<lambda>scaled.
     bnd (tdiv scaled (tmap (\<lambda>v. v + ln_eps self) std)) (\<lambda>q.
       broadcast_op (+) q (ln_b_2 self))))))"

subsection \<open>SublayerConnection\<close>

record SublayerConnection =
  sc_norm :: LayerNorm
  sc_dropout :: Dropout

definition SublayerConnection_init :: "int \<Rightarrow> real \<Rightarrow> error + SublayerConnection" where
  "SublayerConnection_init sz dropout =
     bnd (LayerNorm_init sz) (\<lambda>n.
     bnd (Dropout_init dropout) (\<lambda>d.
       Inr \<lparr>sc_norm = n, sc_dropout = d\<rparr>))"

definition SublayerConnection_forward ::
  "SublayerConnection \<Rightarrow> rng \<Rightarrow> real tensor \<Rightarrow> (real tensor \<Rightarrow> error + real tensor) \<Rightarrow>
   error + real tensor" where
  "SublayerConnection_forward self \<omega> x sublayer =
     bnd (LayerNorm_forward (sc_norm self) x) (\<lambda>n.
     bnd (sublayer n) (\<lambda>s.
       broadcast_op (+) x (Dropout_forward (sc_dropout self) \<omega> s)))"

definition constant_sublayer :: "real tensor \<Rightarrow> real tensor \<Rightarrow> error + real tensor" where
  \<comment> \<open>An inner transform that returns the same tensor whatever it is given.\<close>
  "constant_sublayer t x = Inr t"


subsection \<open>PositionalEncoding\<close>

record PositionalEncoding =
  pe_dropout :: Dropout
  pe_pe :: "real tensor"

definition div_term :: "int \<Rightarrow> nat \<Rightarrow> real" where
  \<comment> \<open>\<open>torch.exp(torch.arange(0, d_model, 2) * -(math.log(10000.0) / d_model))\<close>, element \<open>i\<close>\<close>
  "div_term d_model i = exp (real (2 * i) * - (ln 10000 / real_of_int d_model))"

definition PositionalEncoding_init :: "int \<Rightarrow> real \<Rightarrow> nat \<Rightarrow> error + PositionalEncoding" where
  \<comment> \<open>The table has the sine in the even columns and the cosine in the odd ones. The
      assignment to the odd columns raises when \<open>d_model\<close> is odd and at least 3: the
      right-hand side then has one column more than the slice, and more than one. For
      \<open>d_model = 1\<close> the slice is empty and the one column of the right-hand side is
      broadcast to it, so the table is the single sine column.\<close>
  "PositionalEncoding_init d_model dropout max_len =
     bnd (Dropout_init dropout) (\<lambda>d.
       if d_model < 0 then Inl RuntimeError
       else if d_model = 0 then Inl ZeroDivisionError
       else if odd d_model \<and> d_model \<noteq> 1 then Inl RuntimeError
       else Inr \<lparr>pe_dropout = d,
                 pe_pe = \<lparr>nrows = max_len, ncols = nat d_model,
                          elem = (\<lambda>pos j. if even j
                                           then sin (real pos * div_term d_model (j div 2))
                                           else cos (real pos * div_term d_model (j div 2)))\<rparr>\<rparr>)"

definition slice_rows :: "'a tensor \<Rightarrow> nat \<Rightarrow> 'a tensor" where
  \<comment> \<open>\<open>t[:n]\<close> along the rows\<close>
  "slice_rows t n = \<lparr>nrows = min n (nrows t), ncols = ncols t, elem = elem t\<rparr>"

definition PositionalEncoding_forward ::
  "PositionalEncoding \<Rightarrow> rng \<Rightarrow> real tensor \<Rightarrow> error + real tensor" where
  "PositionalEncoding_forward self \<omega> x =
     bnd (broadcast_op (+) x (slice_rows (pe_pe self) (nrows x))) (\<lambda>y.
       Inr (Dropout_forward (pe_dropout self) \<omega> y))"

subsection \<open>Encoder\<close>

record EncoderBlock =
  eb_self_attn :: MultiHeadedAttention
  eb_ffn :: PositionwiseFFN
  eb_sublayers :: "SublayerConnection list"
  eb_size :: int

definition EncoderBlock_init ::
  "int \<Rightarrow> MultiHeadedAttention \<Rightarrow> PositionwiseFFN \<Rightarrow> real \<Rightarrow> error + EncoderBlock" where
  "EncoderBlock_init sz self_attn ffn dropout =
     bnd (SublayerConnection_init sz dropout) (\<lambda>s.
       Inr \<lparr>eb_self_attn = self_attn, eb_ffn = ffn,
            eb_sublayers = clones s 2, eb_size = sz\<rparr>)"

definition EncoderBlock_forward ::
  "EncoderBlock \<Rightarrow> rng \<Rightarrow> real tensor \<Rightarrow> bool tensor option \<Rightarrow> error + real tensor" where
  "EncoderBlock_forward self \<omega> x msk =
     bnd (getitem (eb_sublayers self) 0) (\<lambda>s0.
     bnd (SublayerConnection_forward s0 (sub \<omega> 0) x
            (\<lambda>x. bnd (MultiHeadedAttention_forward (eb_self_attn self) (sub \<omega> 1) x x x msk)
                     (\<lambda>(y, _). Inr y))) (\<lambda>x.
     bnd (getitem (eb_sublayers self) 1) (\<lambda>s1.
       SublayerConnection_forward s1 (sub \<omega> 2) x
         (PositionwiseFFN_forward (eb_ffn self) (sub \<omega> 3)))))"

fun run_layers ::
  "(nat \<Rightarrow> 'b \<Rightarrow> real tensor \<Rightarrow> error + real tensor) \<Rightarrow> nat \<Rightarrow> 'b list \<Rightarrow> real tensor \<Rightarrow>
   error + real tensor" where
  \<comment> \<open>\<open>for layer in self.blocks: x = layer(x, ...)\<close>; the counter numbers the layers.\<close>
  "run_layers f k [] x = Inr x"
| "run_layers f k (layer # layers) x = bnd (f k layer x) (run_layers f (Suc k) layers)"

record Encoder =
  enc_blocks :: "EncoderBlock list"
  enc_norm :: LayerNorm

definition Encoder_init :: "EncoderBlock \<Rightarrow> int \<Rightarrow> error + Encoder" where
  "Encoder_init block N =
     bnd (LayerNorm_init (eb_size block)) (\<lambda>n.
       Inr \<lparr>enc_blocks = clones block N, enc_norm = n\<rparr>)"

definition Encoder_forward ::
  "Encoder \<Rightarrow> rng \<Rightarrow> real tensor \<Rightarrow> bool tensor option \<Rightarrow> error + real tensor" where
  "Encoder_forward self \<omega> x msk =
     bnd (run_layers (\<lambda>k layer x. EncoderBlock_forward layer (sub \<omega> k) x msk) 0
            (enc_blocks self) x)
       (LayerNorm_forward (enc_norm self))"

subsection \<open>Decoder\<close>

record DecoderBlock =
  db_size :: int
  db_self_attn :: MultiHeadedAttention
  db_encoder_attn :: MultiHeadedAttention
  db_ffn :: PositionwiseFFN
  db_sublayers :: "SublayerConnection list"

definition DecoderBlock_init ::
  "int \<Rightarrow> MultiHeadedAttention \<Rightarrow> MultiHeadedAttention \<Rightarrow> PositionwiseFFN \<Rightarrow> real \<Rightarrow>
   error + DecoderBlock" where
  "DecoderBlock_init sz self_attn encoder_attn ffn dropout =
     bnd (SublayerConnection_init sz dropout) (\<lambda>s.
       Inr \<lparr>db_size = sz, db_self_attn = self_attn, db_encoder_attn = encoder_attn,
            db_ffn = ffn, db_sublayers = clones s 3\<rparr>)"

definition DecoderBlock_forward ::
  "DecoderBlock \<Rightarrow> rng \<Rightarrow> real tensor \<Rightarrow> real tensor \<Rightarrow> bool tensor option \<Rightarrow>
   bool tensor option \<Rightarrow> error + real tensor" where
  "DecoderBlock_forward self \<omega> x encoder_states source_mask target_mask =
     bnd (getitem (db_sublayers self) 0) (\<lambda>s0.
     bnd (SublayerConnection_forward s0 (sub \<omega> 0) x
            (\<lambda>x. bnd (MultiHeadedAttention_forward (db_self_attn self) (sub \<omega> 1)
                        x x x target_mask)
                     (\<lambda>(y, _). Inr y))) (\<lambda>x.
     bnd (getitem (db_sublayers self) 1) (\<lambda>s1.
     bnd (SublayerConnection_forward s1 (sub \<omega> 2) x
            (\<lambda>x. bnd (MultiHeadedAttention_forward (db_encoder_attn self) (sub \<omega> 3)
                        x encoder_states encoder_states source_mask)
                     (\<lambda>(y, _). Inr y))) (\<lambda>x.
     bnd (getitem (db_sublayers self) 2) (\<lambda>s2.
       SublayerConnection_forward s2 (sub \<omega> 4) x
         (PositionwiseFFN_forward (db_ffn self) (sub \<omega> 5)))))))"

record Decoder =
  dec_blocks :: "DecoderBlock list"
  dec_norm :: LayerNorm
  dec_projection :: Linear

definition Decoder_init :: "init \<Rightarrow> DecoderBlock \<Rightarrow> int \<Rightarrow> int \<Rightarrow> error + Decoder" where
  "Decoder_init \<rho> block N vocab_size =
     bnd (LayerNorm_init (db_size block)) (\<lambda>n.
     bnd (Linear_init \<rho> (db_size block) vocab_size) (\<lambda>projection.
       Inr \<lparr>dec_blocks = clones block N, dec_norm = n, dec_projection = projection\<rparr>))"

definition Decoder_forward ::
  "Decoder \<Rightarrow> rng \<Rightarrow> real tensor \<Rightarrow> real tensor \<Rightarrow> bool tensor option \<Rightarrow>
   bool tensor option \<Rightarrow> error + real tensor" where
  "Decoder_forward self \<omega> x encoder_states source_mask target_mask =
     bnd (run_layers (\<lambda>k layer x. DecoderBlock_forward layer (sub \<omega> k) x encoder_states
                                     source_mask target_mask) 0
            (dec_blocks self) x) (\<lambda>x.
     bnd (LayerNorm_forward (dec_norm self) x) (\<lambda>x.
     bnd (Linear_forward (dec_projection self) x) (\<lambda>logits.
       Inr (log_softmax logits))))"

subsection \<open>EncoderDecoder\<close>

text \<open>
  \<open>torch.nn.Sequential(Embeddings(..), PositionalEncoding(..))\<close> is the pair of the two
  modules, applied one after the other.
\<close>

definition Sequential_forward ::
  "Embeddings \<times> PositionalEncoding \<Rightarrow> rng \<Rightarrow> nat list \<Rightarrow> error + real tensor" where
  "Sequential_forward s \<omega> x =
     bnd (Embeddings_forward (fst s) x) (PositionalEncoding_forward (snd s) \<omega>)"

record EncoderDecoder =
  ed_encoder :: Encoder
  ed_decoder :: Decoder
  ed_source_embeddings :: "Embeddings \<times> PositionalEncoding"
  ed_target_embeddings :: "Embeddings \<times> PositionalEncoding"

definition EncoderDecoder_sample ::
  "EncoderDecoder \<Rightarrow> rng \<Rightarrow> nat list \<Rightarrow> nat list \<Rightarrow> bool tensor \<Rightarrow> bool tensor \<Rightarrow>
   error + real tensor" where
  \<comment> \<open>\<open>EncoderDecoder.forward\<close> on one element of the batch.\<close>
  "EncoderDecoder_sample self \<omega> source target source_mask target_mask =
     bnd (Sequential_forward (ed_source_embeddings self) (sub \<omega> 0) source) (\<lambda>src.
     bnd (Encoder_forward (ed_encoder self) (sub \<omega> 1) src (Some source_mask)) (\<lambda>encoder_output.
     bnd (Sequential_forward (ed_target_embeddings self) (sub \<omega> 2) target) (\<lambda>tgt.
       Decoder_forward (ed_decoder self) (sub \<omega> 3) tgt encoder_output
         (Some source_mask) (Some target_mask))))"

definition EncoderDecoder_forward ::
  "EncoderDecoder \<Rightarrow> rng \<Rightarrow> nat list list \<Rightarrow> nat list list \<Rightarrow> bool tensor list \<Rightarrow>
   bool tensor list \<Rightarrow> error + real tensor list" where
  \<comment> \<open>The batch is the list of its elements; the four arguments have one entry each per
      element, and the result has one tensor per element.\<close>
  "EncoderDecoder_forward self \<omega> source target source_mask target_mask =
     (if length target = length source \<and> length source_mask = length source \<and>
         length target_mask = length source
      then traverse (\<lambda>b. EncoderDecoder_sample self (sub \<omega> b) (source ! b) (target ! b)
                            (source_mask ! b) (target_mask ! b))
             [0..<length source]
      else Inl RuntimeError)"

subsection \<open>build_model\<close>

text \<open>
  \<open>xavier_uniform_\<close> redraws every parameter of more than one dimension: the weights of
  the linear layers and the embedding tables. It leaves the shapes as they are.
\<close>

definition xavier_uniform :: "init \<Rightarrow> real tensor \<Rightarrow> real tensor" where
  "xavier_uniform \<rho> t = random_tensor \<rho> (nrows t) (ncols t)"

definition xavier_Linear :: "init \<Rightarrow> Linear \<Rightarrow> Linear" where
  "xavier_Linear \<rho> l = l\<lparr>lin_weight := xavier_uniform \<rho> (lin_weight l)\<rparr>"

definition xavier_MultiHeadedAttention :: "init \<Rightarrow> MultiHeadedAttention \<Rightarrow> MultiHeadedAttention" where
  "xavier_MultiHeadedAttention \<rho> m =
     m\<lparr>mha_fc_layers := map (\<lambda>(k, l). xavier_Linear (subi \<rho> k) l)
                             (enumerate 0 (mha_fc_layers m))\<rparr>"

definition xavier_PositionwiseFFN :: "init \<Rightarrow> PositionwiseFFN \<Rightarrow> PositionwiseFFN" where
  "xavier_PositionwiseFFN \<rho> f =
     f\<lparr>ffn_w_1 := xavier_Linear (subi \<rho> 0) (ffn_w_1 f),
       ffn_w_2 := xavier_Linear (subi \<rho> 1) (ffn_w_2 f)\<rparr>"

definition xavier_EncoderBlock :: "init \<Rightarrow> EncoderBlock \<Rightarrow> EncoderBlock" where
  "xavier_EncoderBlock \<rho> b =
     b\<lparr>eb_self_attn := xavier_MultiHeadedAttention (subi \<rho> 0) (eb_self_attn b),
       eb_ffn := xavier_PositionwiseFFN (subi \<rho> 1) (eb_ffn b)\<rparr>"

definition xavier_DecoderBlock :: "init \<Rightarrow> DecoderBlock \<Rightarrow> DecoderBlock" where
  "xavier_DecoderBlock \<rho> b =
     b\<lparr>db_self_attn := xavier_MultiHeadedAttention (subi \<rho> 0) (db_self_attn b),
       db_encoder_attn := xavier_MultiHeadedAttention (subi \<rho> 1) (db_encoder_attn b),
       db_ffn := xavier_PositionwiseFFN (subi \<rho> 2) (db_ffn b)\<rparr>"

definition xavier_Encoder :: "init \<Rightarrow> Encoder \<Rightarrow> Encoder" where
  "xavier_Encoder \<rho> e =
     e\<lparr>enc_blocks := map (\<lambda>(k, b). xavier_EncoderBlock (subi \<rho> k) b)
                          (enumerate 0 (enc_blocks e))\<rparr>"

definition xavier_Decoder :: "init \<Rightarrow> Decoder \<Rightarrow> Decoder" where
  "xavier_Decoder \<rho> d =
     d\<lparr>dec_blocks := map (\<lambda>(k, b). xavier_DecoderBlock (subi (subi \<rho> 0) k) b)
                          (enumerate 0 (dec_blocks d)),
       dec_projection := xavier_Linear (subi \<rho> 1) (dec_projection d)\<rparr>"

definition xavier_Embeddings :: "init \<Rightarrow> Embeddings \<Rightarrow> Embeddings" where
  "xavier_Embeddings \<rho> e = e\<lparr>emb_lut := xavier_uniform \<rho> (emb_lut e)\<rparr>"

definition xavier_EncoderDecoder :: "init \<Rightarrow> EncoderDecoder \<Rightarrow> EncoderDecoder" where
  "xavier_EncoderDecoder \<rho> m =
     \<lparr>ed_encoder = xavier_Encoder (subi \<rho> 0) (ed_encoder m),
      ed_decoder = xavier_Decoder (subi \<rho> 1) (ed_decoder m),
      ed_source_embeddings =
        (xavier_Embeddings (subi \<rho> 2) (fst (ed_source_embeddings m)), snd (ed_source_embeddings m)),
      ed_target_embeddings =
        (xavier_Embeddings (subi \<rho> 3) (fst (ed_target_embeddings m)), snd (ed_target_embeddings m))\<rparr>"

definition build_model ::
  "init \<Rightarrow> init \<Rightarrow> int \<Rightarrow> int \<Rightarrow> int \<Rightarrow> int \<Rightarrow> int \<Rightarrow> int \<Rightarrow> real \<Rightarrow> error + EncoderDecoder" where
  \<comment> \<open>\<open>\<rho>\<close> feeds the constructors, \<open>\<rho>x\<close> the Glorot initialisation; \<open>copy.deepcopy\<close> is
      the identity on values. The defaults of the source are \<open>N = 6\<close>, \<open>d_model = 512\<close>,
      \<open>d_ff = 2048\<close>, \<open>h = 8\<close>, \<open>dropout = 0.1\<close>.\<close>
  "build_model \<rho> \<rho>x source_vocabulary target_vocabulary N d_model d_ff h dropout =
     bnd (MultiHeadedAttention_init (subi \<rho> 0) h d_model (1 / 10)) (\<lambda>attn.
     bnd (PositionwiseFFN_init (subi \<rho> 1) d_model d_ff dropout) (\<lambda>ff.
     bnd (PositionalEncoding_init d_model dropout 5000) (\<lambda>position.
     bnd (EncoderBlock_init d_model attn ff dropout) (\<lambda>eb.
     bnd (Encoder_init eb N) (\<lambda>encoder.
     bnd (DecoderBlock_init d_model attn attn ff dropout) (\<lambda>db.
     bnd (Decoder_init (subi \<rho> 2) db N target_vocabulary) (\<lambda>decoder.
     bnd (Embeddings_init (subi \<rho> 3) d_model source_vocabulary) (\<lambda>se.
     bnd (Embeddings_init (subi \<rho> 4) d_model target_vocabulary) (\<lambda>te.
       Inr (xavier_EncoderDecoder \<rho>x
             \<lparr>ed_encoder = encoder, ed_decoder = decoder,
              ed_source_embeddings = (se, position),
              ed_target_embeddings = (te, position)\<rparr>))))))))))"

section \<open>Pairs for the siamese network\<close>

text \<open>
  \<open>create_pairs\<close> of the siamese notebook. The dataset is a list of samples and the label
  array a list of class numbers. \<open>rnd k\<close> is the value the \<open>k\<close>-th call of
  \<open>random.randrange(1, num_classes)\<close> returns. The loop state is the list of pairs, the
  list of labels and the number of calls made so far.
\<close>

definition np_where_eq :: "nat list \<Rightarrow> nat \<Rightarrow> nat list" where
  \<comment> \<open>\<open>np.where(labels == c)[0]\<close>: the positions that hold \<open>c\<close>, in increasing order\<close>
  "np_where_eq labels c = filter (\<lambda>k. labels ! k = c) [0..<length labels]"

fun for_loop :: "nat list \<Rightarrow> (nat \<Rightarrow> 's \<Rightarrow> error + 's) \<Rightarrow> 's \<Rightarrow> error + 's" where
  "for_loop [] body s = Inr s"
| "for_loop (i # is) body s = bnd (body i s) (for_loop is body)"

definition pair_body ::
  "'a list \<Rightarrow> nat list list \<Rightarrow> (nat \<Rightarrow> nat) \<Rightarrow> nat \<Rightarrow> nat \<Rightarrow> nat \<Rightarrow>
   'a list list \<times> real list \<times> nat \<Rightarrow> error + ('a list list \<times> real list \<times> nat)" where
  "pair_body inputs digit_indices rnd num_classes d i s =
     (case s of (pairs, labels, calls) \<Rightarrow>
        bnd (getitem (digit_indices ! d) i) (\<lambda>z1.
        bnd (getitem (digit_indices ! d) (i + 1)) (\<lambda>z2.
        bnd (getitem inputs z1) (\<lambda>a.
        bnd (getitem inputs z2) (\<lambda>b.
          let pairs = pairs @ [[a, b]];
              inc = rnd calls;
              dn = (d + inc) mod num_classes
          in
            bnd (getitem (digit_indices ! d) i) (\<lambda>z1.
            bnd (getitem (digit_indices ! dn) i) (\<lambda>z2.
            bnd (getitem inputs z1) (\<lambda>a.
            bnd (getitem inputs z2) (\<lambda>b.
              Inr (pairs @ [[a, b]], labels @ [1, 0], calls + 1))))))))))"

definition create_pairs ::
  "'a list \<Rightarrow> nat list \<Rightarrow> (nat \<Rightarrow> nat) \<Rightarrow> error + ('a list list \<times> real list)" where
  "create_pairs inputs labels rnd =
     (let num_classes = 10;
          digit_indices = map (np_where_eq labels) [0..<num_classes];
          n = int (Min (set (map (\<lambda>d. length (digit_indices ! d)) [0..<num_classes]))) - 1
      in bnd (for_loop [0..<num_classes]
                (\<lambda>d. for_loop [0..<nat n] (pair_body inputs digit_indices rnd num_classes d))
                ([], [], 0))
           (\<lambda>(pairs, labels, calls). Inr (pairs, labels)))"

definition same_class_pair :: "'a list \<Rightarrow> nat list \<Rightarrow> nat \<Rightarrow> 'a list \<Rightarrow> bool" where
  \<comment> \<open>A positive pair of class \<open>d\<close>: two different samples, both labelled \<open>d\<close>.\<close>
  "same_class_pair inputs labels d pr \<longleftrightarrow>
     (\<exists>z1 < length labels. \<exists>z2 < length labels.
        z1 \<noteq> z2 \<and> labels ! z1 = d \<and> labels ! z2 = d \<and> pr = [inputs ! z1, inputs ! z2])"

definition cross_class_pair :: "'a list \<Rightarrow> nat list \<Rightarrow> nat \<Rightarrow> 'a list \<Rightarrow> bool" where
  \<comment> \<open>A negative pair of class \<open>d\<close>: a sample labelled \<open>d\<close> and one of another class.\<close>
  "cross_class_pair inputs labels d pr \<longleftrightarrow>
     (\<exists>z1 < length labels. \<exists>z2 < length labels.
        labels ! z1 = d \<and> labels ! z2 \<noteq> d \<and> labels ! z2 < 10 \<and> pr = [inputs ! z1, inputs ! z2])"

text \<open>The two pairs that the iteration \<open>(d, i)\<close> appends when its draw is \<open>inc\<close>.\<close>

definition positive_pair :: "'a list \<Rightarrow> nat list \<Rightarrow> nat \<Rightarrow> nat \<Rightarrow> 'a list" where
  "positive_pair inputs labels d i =
     [inputs ! (np_where_eq labels d ! i), inputs ! (np_where_eq labels d ! (i + 1))]"

definition negative_pair :: "'a list \<Rightarrow> nat list \<Rightarrow> nat \<Rightarrow> nat \<Rightarrow> nat \<Rightarrow> 'a list" where
  "negative_pair inputs labels d i inc =
     [inputs ! (np_where_eq labels d ! i),
      inputs ! (np_where_eq labels ((d + inc) mod 10) ! i)]"

definition pairs_per_class :: "nat list \<Rightarrow> nat" where
  \<comment> \<open>One less than the size of the smallest of the ten classes.\<close>
  "pairs_per_class labels = Min (count_list labels ` {..<10}) - 1"

definition first_increment :: "nat \<Rightarrow> nat" where
  \<comment> \<open>The sequence of draws in which \<open>random.randrange\<close> always returns 1.\<close>
  "first_increment k = 1"

section \<open>Shapes of the parameters\<close>

text \<open>
  The shapes that the constructors give to the parameters of a model of width \<open>d\<close>, inner
  width \<open>d_ff\<close> and vocabulary size \<open>v\<close>. Training changes the values of the parameters,
  not their shapes.
\<close>

definition shaped :: "'a tensor \<Rightarrow> nat \<Rightarrow> nat \<Rightarrow> bool" where
  "shaped t r c \<longleftrightarrow> nrows t = r \<and> ncols t = c"

definition Linear_ok :: "Linear \<Rightarrow> nat \<Rightarrow> nat \<Rightarrow> bool" where
  "Linear_ok l in_features out_features \<longleftrightarrow>
     shaped (lin_weight l) out_features in_features \<and> shaped (lin_bias l) 1 out_features"

definition LayerNorm_ok :: "LayerNorm \<Rightarrow> nat \<Rightarrow> bool" where
  "LayerNorm_ok n d \<longleftrightarrow> shaped (ln_a_2 n) 1 d \<and> shaped (ln_b_2 n) 1 d \<and> 0 < ln_eps n"

definition MultiHeadedAttention_ok :: "MultiHeadedAttention \<Rightarrow> nat \<Rightarrow> bool" where
  "MultiHeadedAttention_ok m d \<longleftrightarrow>
     0 < mha_h m \<and> 0 < mha_d_k m \<and> nat (mha_h m) * nat (mha_d_k m) = d \<and>
     length (mha_fc_layers m) = 4 \<and> (\<forall>l \<in> set (mha_fc_layers m). Linear_ok l d d)"

definition PositionwiseFFN_ok :: "PositionwiseFFN \<Rightarrow> nat \<Rightarrow> nat \<Rightarrow> bool" where
  "PositionwiseFFN_ok f d d_ff \<longleftrightarrow> Linear_ok (ffn_w_1 f) d d_ff \<and> Linear_ok (ffn_w_2 f) d_ff d"

definition EncoderBlock_ok :: "EncoderBlock \<Rightarrow> nat \<Rightarrow> nat \<Rightarrow> bool" where
  "EncoderBlock_ok b d d_ff \<longleftrightarrow>
     MultiHeadedAttention_ok (eb_self_attn b) d \<and> PositionwiseFFN_ok (eb_ffn b) d d_ff \<and>
     length (eb_sublayers b) = 2 \<and> (\<forall>s \<in> set (eb_sublayers b). LayerNorm_ok (sc_norm s) d)"

definition DecoderBlock_ok :: "DecoderBlock \<Rightarrow> nat \<Rightarrow> nat \<Rightarrow> bool" where
  "DecoderBlock_ok b d d_ff \<longleftrightarrow>
     MultiHeadedAttention_ok (db_self_attn b) d \<and> MultiHeadedAttention_ok (db_encoder_attn b) d \<and>
     PositionwiseFFN_ok (db_ffn b) d d_ff \<and>
     length (db_sublayers b) = 3 \<and> (\<forall>s \<in> set (db_sublayers b). LayerNorm_ok (sc_norm s) d)"

definition Embeddings_ok :: "Embeddings \<times> PositionalEncoding \<Rightarrow> nat \<Rightarrow> nat \<Rightarrow> nat \<Rightarrow> bool" where
  \<comment> \<open>a table of \<open>v\<close> rows and a positional table of at least \<open>len\<close> rows, both of width \<open>d\<close>\<close>
  "Embeddings_ok e v d len \<longleftrightarrow>
     shaped (emb_lut (fst e)) v d \<and> 0 \<le> emb_d_model (fst e) \<and>
     len \<le> nrows (pe_pe (snd e)) \<and> ncols (pe_pe (snd e)) = d"

definition EncoderDecoder_ok :: "EncoderDecoder \<Rightarrow> nat \<Rightarrow> nat \<Rightarrow> nat \<Rightarrow> nat \<Rightarrow> nat \<Rightarrow> bool" where
  "EncoderDecoder_ok m d d_ff sv tv len \<longleftrightarrow>
     (\<forall>b \<in> set (enc_blocks (ed_encoder m)). EncoderBlock_ok b d d_ff) \<and>
     LayerNorm_ok (enc_norm (ed_encoder m)) d \<and>
     (\<forall>b \<in> set (dec_blocks (ed_decoder m)). DecoderBlock_ok b d d_ff) \<and>
     LayerNorm_ok (dec_norm (ed_decoder m)) d \<and>
     Linear_ok (dec_projection (ed_decoder m)) d tv \<and>
     Embeddings_ok (ed_source_embeddings m) sv d len \<and>
     Embeddings_ok (ed_target_embeddings m) tv d len"

section \<open>Results on attention\<close>

lemma bnd_Inr_iff: "bnd m f = Inr y \<longleftrightarrow> (\<exists>x. m = Inr x \<and> f x = Inr y)"
  by (cases m) auto

lemma bnd_assoc: "bnd (bnd m f) g = bnd m (\<lambda>x. bnd (f x) g)"
  by (cases m) auto

lemma sum_exp_pos: "0 < (n::nat) \<Longrightarrow> 0 < (\<Sum>k<n. exp (f k :: real))"
  by (rule sum_pos) auto

lemma softmax_row_sum:
  assumes "0 < ncols t"
  shows "(\<Sum>j<ncols (softmax t). elem (softmax t) i j) = 1"
proof -
  have "(\<Sum>j<ncols t. exp (elem t i j) / (\<Sum>k<ncols t. exp (elem t i k)))
        = (\<Sum>j<ncols t. exp (elem t i j)) / (\<Sum>k<ncols t. exp (elem t i k))"
    by (rule sum_divide_distrib [symmetric])
  moreover have "(\<Sum>k<ncols t. exp (elem t i k)) \<noteq> 0"
    using sum_exp_pos [OF assms, of "elem t i"] by simp
  ultimately show ?thesis by (simp add: softmax_def)
qed

lemma pick_in: "i < n \<Longrightarrow> pick n i = i"
  by (auto simp: pick_def)

lemma broadcast_dim_expand: "m = n \<or> m = 1 \<Longrightarrow> broadcast_dim n m = Inr n"
  by (auto simp: broadcast_dim_def)

lemma masked_fill_fits:
  assumes "nrows m = nrows t \<or> nrows m = 1" "ncols m = ncols t \<or> ncols m = 1"
  shows "\<exists>r. masked_fill t m v = Inr r \<and> nrows r = nrows t \<and> ncols r = ncols t \<and>
     (\<forall>i<nrows t. \<forall>j<ncols t. elem r i j =
        (if elem m (pick (nrows m) i) (pick (ncols m) j) then v else elem t i j))"
  using assms by (simp add: masked_fill_def broadcast_op_def broadcast_dim_expand pick_in)

lemma attention_scores:
  assumes "ncols key = ncols query" "0 < ncols query" "mask_fits msk (nrows query) (nrows key)"
  shows "\<exists>s. (bnd (matmul query (transpose_t key)) (\<lambda>qk.
      bnd (div_scalar qk (sqrt (real (ncols query)))) (\<lambda>scores.
      (case msk of None \<Rightarrow> Inr scores
           | Some m \<Rightarrow> masked_fill scores (eq0 m) (- (10 ^ 9))))) = Inr s) \<and>
      nrows s = nrows query \<and> ncols s = nrows key \<and>
      (\<forall>i<nrows query. \<forall>j<nrows key. elem s i j = masked_score query key msk i j)"
proof (cases msk)
  case None
  then show ?thesis using assms
    by (simp add: matmul_def transpose_t_def div_scalar_def tmap_def masked_score_def
        scaled_score_def)
next
  case (Some m)
  define sc where "sc = \<lparr>nrows = nrows query, ncols = nrows key,
      elem = (\<lambda>i j. (\<Sum>l<ncols query. elem query i l * elem key j l) /
                     sqrt (real (ncols query)))\<rparr>"
  have fit: "nrows (eq0 m) = nrows sc \<or> nrows (eq0 m) = 1"
    "ncols (eq0 m) = ncols sc \<or> ncols (eq0 m) = 1"
    using assms(3) Some by (auto simp: mask_fits_def eq0_def tmap_def sc_def)
  from masked_fill_fits [OF fit, of "- (10 ^ 9)"] obtain r where
    r: "masked_fill sc (eq0 m) (- (10 ^ 9)) = Inr r" "nrows r = nrows sc" "ncols r = ncols sc"
     "\<forall>i<nrows sc. \<forall>j<ncols sc. elem r i j =
        (if elem (eq0 m) (pick (nrows (eq0 m)) i) (pick (ncols (eq0 m)) j)
         then - (10 ^ 9) else elem sc i j)"
    by blast
  have "bnd (matmul query (transpose_t key)) (\<lambda>qk.
      bnd (div_scalar qk (sqrt (real (ncols query)))) (\<lambda>scores.
      (case msk of None \<Rightarrow> Inr scores
           | Some m \<Rightarrow> masked_fill scores (eq0 m) (- (10 ^ 9))))) = Inr r"
    using assms(1,2) Some r(1)
    by (simp add: matmul_def transpose_t_def div_scalar_def tmap_def sc_def)
  moreover have "\<forall>i<nrows query. \<forall>j<nrows key. elem r i j = masked_score query key msk i j"
    using r(4) Some by (simp add: sc_def masked_score_def scaled_score_def eq0_def tmap_def)
  ultimately show ?thesis using r(2,3) by (simp add: sc_def)
qed

lemma attention_weights:
  assumes "ncols key = ncols query" "0 < ncols query" "nrows value = nrows key"
    "mask_fits msk (nrows query) (nrows key)"
  shows "\<exists>x p. attention query key value msk None = Inr (x, p) \<and>
      nrows p = nrows query \<and> ncols p = nrows key \<and>
      (\<forall>i<nrows query. \<forall>j<nrows key. elem p i j =
          exp (masked_score query key msk i j) /
          (\<Sum>k<nrows key. exp (masked_score query key msk i k))) \<and>
      nrows x = nrows query \<and> ncols x = ncols value \<and>
      (\<forall>i c. elem x i c = (\<Sum>j<nrows key. elem p i j * elem value j c))"
proof -
  from attention_scores [OF assms(1,2,4)] obtain s where
    s: "(bnd (matmul query (transpose_t key)) (\<lambda>qk.
      bnd (div_scalar qk (sqrt (real (ncols query)))) (\<lambda>scores.
      (case msk of None \<Rightarrow> Inr scores
           | Some m \<Rightarrow> masked_fill scores (eq0 m) (- (10 ^ 9))))) = Inr s)"
     "nrows s = nrows query" "ncols s = nrows key"
     "\<forall>i<nrows query. \<forall>j<nrows key. elem s i j = masked_score query key msk i j"
    by blast
  have att: "attention query key value msk None =
     bnd (bnd (matmul query (transpose_t key)) (\<lambda>qk.
      bnd (div_scalar qk (sqrt (real (ncols query)))) (\<lambda>scores.
      (case msk of None \<Rightarrow> Inr scores
           | Some m \<Rightarrow> masked_fill scores (eq0 m) (- (10 ^ 9))))))
      (\<lambda>scores. bnd (matmul (softmax scores) value) (\<lambda>x. Inr (x, softmax scores)))"
    by (simp add: attention_def Let_def bnd_assoc)
  have "attention query key value msk None =
     Inr (\<lparr>nrows = nrows query, ncols = ncols value,
           elem = (\<lambda>i j. \<Sum>l<nrows key. elem (softmax s) i l * elem value l j)\<rparr>, softmax s)"
    unfolding att s(1) using assms(3) s(2,3) by (simp add: matmul_def softmax_def)
  moreover have "\<forall>i<nrows query. \<forall>j<nrows key. elem (softmax s) i j =
          exp (masked_score query key msk i j) /
          (\<Sum>k<nrows key. exp (masked_score query key msk i k))"
    using s(3,4) by (simp add: softmax_def)
  ultimately show ?thesis using s(2,3) by (simp add: softmax_def)
qed

lemma stable_softmax:
  fixes s :: "nat \<Rightarrow> real"
  shows "exp (s j - t) / (\<Sum>k<m. exp (s k - t)) = exp (s j) / (\<Sum>k<m. exp (s k))"
proof -
  have "(\<Sum>k<m. exp (s k - t)) = (\<Sum>k<m. exp (s k)) / exp t"
    by (simp add: exp_diff sum_divide_distrib)
  then show ?thesis by (simp add: exp_diff)
qed








section \<open>Results on attention in \<open>float32\<close> range\<close>

lemma float32_max_pos: "0 \<le> float32_max"
  by (simp add: float32_max_def)

lemma exp_f32_nonneg: "0 \<le> exp_f32 x"
  by (simp add: exp_f32_def)

lemma exp_f32_zero: "exp_f32 0 = 1"
  by (simp add: exp_f32_def)


lemma softmax_f32_denominator:
  assumes "0 < ncols t"
  shows "1 \<le> (\<Sum>k<ncols t. exp_f32 (elem t i k - row_max t i))"
proof -
  have "Max (elem t i ` {..<ncols t}) \<in> elem t i ` {..<ncols t}"
    using assms by (intro Max_in) auto
  then obtain k where k: "k < ncols t" "elem t i k = row_max t i"
    by (auto simp: row_max_def)
  have "exp_f32 (elem t i k - row_max t i) \<le> (\<Sum>k<ncols t. exp_f32 (elem t i k - row_max t i))"
    using k(1) by (intro member_le_sum) (simp_all add: exp_f32_nonneg)
  then show ?thesis using k(2) by (simp add: exp_f32_zero)
qed

lemma softmax_f32_nonneg: "0 \<le> elem (softmax_f32 t) i j"
  by (simp add: softmax_f32_def exp_f32_nonneg sum_nonneg)

lemma softmax_f32_row_sum:
  assumes "0 < ncols t"
  shows "row_sum (softmax_f32 t) i = 1"
proof -
  let ?u = "\<lambda>k. exp_f32 (elem t i k - row_max t i)"
  have "(\<Sum>j<ncols t. ?u j / (\<Sum>k<ncols t. ?u k)) = (\<Sum>j<ncols t. ?u j) / (\<Sum>k<ncols t. ?u k)"
    by (rule sum_divide_distrib [symmetric])
  moreover have "(\<Sum>k<ncols t. ?u k) \<noteq> 0"
    using softmax_f32_denominator [OF assms, of i] by simp
  ultimately show ?thesis by (simp add: softmax_f32_def row_sum_def)
qed

lemma matmul_f32_in_range:
  assumes "\<forall>i<nrows a. \<forall>j<ncols b. abs_products a b i j \<le> float32_max"
  shows "matmul_f32 a b = matmul a b"
  using assms by (cases "matmul a b") (simp_all add: matmul_f32_def)

lemma weighted_values_in_range:
  assumes "in_range_f32 v" and "ncols p = nrows v" and "c < ncols v"
    and "\<forall>j<ncols p. 0 \<le> elem p i j" and "ncols p = 0 \<or> row_sum p i = 1"
  shows "abs_products p v i c \<le> float32_max"
proof -
  have "abs_products p v i c = (\<Sum>j<ncols p. elem p i j * \<bar>elem v j c\<bar>)"
    unfolding abs_products_def using assms(4) by (intro sum.cong) (simp_all add: abs_mult)
  also have "\<dots> \<le> (\<Sum>j<ncols p. elem p i j * float32_max)"
    using assms(1,2,3,4) by (intro sum_mono mult_left_mono) (simp_all add: in_range_f32_def)
  also have "\<dots> = row_sum p i * float32_max"
    by (simp add: row_sum_def sum_distrib_right)
  also have "\<dots> \<le> float32_max"
    using assms(5) float32_max_pos by (auto simp: row_sum_def)
  finally show ?thesis .
qed

lemma attention_f32_weights:
  assumes "ncols key = ncols query" "0 < ncols query" "nrows value = nrows key"
    "mask_fits msk (nrows query) (nrows key)"
    and range: "\<forall>i<nrows query. \<forall>j<nrows key.
        abs_products query (transpose_t key) i j \<le> float32_max"
    and val: "in_range_f32 value"
  shows "\<exists>x p. attention_f32 query key value msk None = Inr (x, p) \<and>
      nrows p = nrows query \<and> ncols p = nrows key \<and>
      (\<forall>i<nrows query. \<forall>j<nrows key. elem p i j =
          exp_f32 (masked_score query key msk i j -
                   Max (masked_score query key msk i ` {..<nrows key})) /
          (\<Sum>k<nrows key. exp_f32 (masked_score query key msk i k -
                   Max (masked_score query key msk i ` {..<nrows key})))) \<and>
      (\<forall>i<nrows query. 0 < nrows key \<longrightarrow> row_sum p i = 1) \<and>
      nrows x = nrows query \<and> ncols x = ncols value \<and>
      (\<forall>i c. elem x i c = (\<Sum>j<nrows key. elem p i j * elem value j c))"
proof -
  from attention_scores [OF assms(1,2,4)] obtain s where
    s: "(bnd (matmul query (transpose_t key)) (\<lambda>qk.
      bnd (div_scalar qk (sqrt (real (ncols query)))) (\<lambda>scores.
      (case msk of None \<Rightarrow> Inr scores
           | Some m \<Rightarrow> masked_fill scores (eq0 m) (- (10 ^ 9))))) = Inr s)"
     "nrows s = nrows query" "ncols s = nrows key"
     "\<forall>i<nrows query. \<forall>j<nrows key. elem s i j = masked_score query key msk i j"
    by blast
  have mm: "matmul_f32 query (transpose_t key) = matmul query (transpose_t key)"
    using range by (intro matmul_f32_in_range) (simp add: transpose_t_def)
  have att: "attention_f32 query key value msk None =
     bnd (bnd (matmul query (transpose_t key)) (\<lambda>qk.
      bnd (div_scalar qk (sqrt (real (ncols query)))) (\<lambda>scores.
      (case msk of None \<Rightarrow> Inr scores
           | Some m \<Rightarrow> masked_fill scores (eq0 m) (- (10 ^ 9))))))
      (\<lambda>scores. bnd (matmul_f32 (softmax_f32 scores) value)
                     (\<lambda>x. Inr (x, softmax_f32 scores)))"
    by (simp add: attention_f32_def Let_def bnd_assoc mm)
  let ?p = "softmax_f32 s"
  have sh: "nrows ?p = nrows query" "ncols ?p = nrows key"
    using s(2,3) by (simp_all add: softmax_f32_def)
  have rs: "0 < nrows key \<Longrightarrow> row_sum ?p i = 1" for i
    using softmax_f32_row_sum [of s i] s(3) by simp
  have "\<forall>i<nrows ?p. \<forall>c<ncols value. abs_products ?p value i c \<le> float32_max"
  proof (intro allI impI)
    fix i c assume "i < nrows ?p" "c < ncols value"
    then show "abs_products ?p value i c \<le> float32_max"
      using val assms(3) sh(2) rs [of i]
      by (intro weighted_values_in_range) (auto simp: softmax_f32_nonneg)
  qed
  then have m2: "matmul_f32 ?p value = matmul ?p value"
    by (rule matmul_f32_in_range)
  have res: "attention_f32 query key value msk None =
     Inr (\<lparr>nrows = nrows query, ncols = ncols value,
           elem = (\<lambda>i j. \<Sum>l<nrows key. elem ?p i l * elem value l j)\<rparr>, ?p)"
    unfolding att s(1) using assms(3) sh s(2) by (simp add: m2 matmul_def)
  have top: "row_max s i = Max (masked_score query key msk i ` {..<nrows key})"
    if "i < nrows query" for i
  proof -
    have "elem s i ` {..<ncols s} = masked_score query key msk i ` {..<nrows key}"
      using s(3,4) that by (intro image_cong) simp_all
    then show ?thesis by (simp add: row_max_def)
  qed
  have el: "\<forall>i<nrows query. \<forall>j<nrows key. elem ?p i j =
          exp_f32 (masked_score query key msk i j -
                   Max (masked_score query key msk i ` {..<nrows key})) /
          (\<Sum>k<nrows key. exp_f32 (masked_score query key msk i k -
                   Max (masked_score query key msk i ` {..<nrows key})))"
    using s(3,4) by (simp add: softmax_f32_def top)
  show ?thesis
    using res sh el rs by simp
qed



text \<open>
  Where no score overflows and no exponential underflows, \<open>attention_f32\<close> returns what
  \<open>attention\<close> returns: the two definitions differ in the effects of the range only.
\<close>

lemma attention_f32_agrees:
  assumes "ncols key = ncols query" "0 < ncols query" "nrows value = nrows key"
    "mask_fits msk (nrows query) (nrows key)"
    and range: "\<forall>i<nrows query. \<forall>j<nrows key.
        abs_products query (transpose_t key) i j \<le> float32_max"
    and val: "in_range_f32 value"
    and no_underflow: "\<forall>i<nrows query. \<forall>j<nrows key.
        1 / 2 ^ 150 < exp (masked_score query key msk i j -
                           Max (masked_score query key msk i ` {..<nrows key}))"
  shows "\<exists>x p x' p'. attention_f32 query key value msk None = Inr (x, p) \<and>
      attention query key value msk None = Inr (x', p') \<and> teq x x' \<and> teq p p'"
proof -
  let ?top = "\<lambda>i. Max (masked_score query key msk i ` {..<nrows key})"
  from attention_f32_weights [OF assms(1,2,3,4) range val] obtain x p where
    a: "attention_f32 query key value msk None = Inr (x, p)"
    and sh: "nrows p = nrows query" "ncols p = nrows key"
    and el: "\<forall>i<nrows query. \<forall>j<nrows key. elem p i j =
          exp_f32 (masked_score query key msk i j - ?top i) /
          (\<Sum>k<nrows key. exp_f32 (masked_score query key msk i k - ?top i))"
    and xs: "nrows x = nrows query" "ncols x = ncols value"
      "\<forall>i c. elem x i c = (\<Sum>j<nrows key. elem p i j * elem value j c)"
    by blast
  from attention_weights [OF assms(1,2,3,4)] obtain x' p' where
    a': "attention query key value msk None = Inr (x', p')"
    and sh': "nrows p' = nrows query" "ncols p' = nrows key"
    and el': "\<forall>i<nrows query. \<forall>j<nrows key. elem p' i j =
          exp (masked_score query key msk i j) /
          (\<Sum>k<nrows key. exp (masked_score query key msk i k))"
    and xs': "nrows x' = nrows query" "ncols x' = ncols value"
      "\<forall>i c. elem x' i c = (\<Sum>j<nrows key. elem p' i j * elem value j c)"
    by blast
  have same: "elem p i j = elem p' i j" if "i < nrows query" "j < nrows key" for i j
  proof -
    have e: "exp_f32 (masked_score query key msk i k - ?top i) =
        exp (masked_score query key msk i k - ?top i)" if "k < nrows key" for k
      using no_underflow \<open>i < nrows query\<close> that by (simp add: exp_f32_def not_le)
    have "elem p i j = exp (masked_score query key msk i j - ?top i) /
          (\<Sum>k<nrows key. exp (masked_score query key msk i k - ?top i))"
      using el that e by simp
    also have "\<dots> = elem p' i j"
      using el' that by (simp add: stable_softmax)
    finally show ?thesis .
  qed
  then have "teq p p'" using sh sh' by (simp add: teq_def)
  moreover have "teq x x'"
    using xs xs' same by (simp add: teq_def)
  ultimately show ?thesis using a a' by blast
qed













section \<open>Results on the modules\<close>

lemma Dropout_init_ok: "0 \<le> p \<Longrightarrow> p \<le> 1 \<Longrightarrow> Dropout_init p = Inr \<lparr>do_p = p, do_training = True\<rparr>"
  by (simp add: Dropout_init_def)

lemma Linear_init_ok:
  "0 \<le> a \<Longrightarrow> 0 \<le> b \<Longrightarrow> Linear_init \<rho> a b =
     Inr \<lparr>lin_weight = random_tensor (subi \<rho> 0) (nat b) (nat a),
          lin_bias = random_tensor (subi \<rho> 1) 1 (nat b)\<rparr>"
  by (simp add: Linear_init_def)

text \<open>
  Claim C4. For a positive model dimension (and a dropout probability the library
  accepts), the constructor of \<open>MultiHeadedAttention\<close> fails exactly when \<open>d_model\<close> is
  not evenly divisible by the head count \<open>h\<close>: with \<open>ZeroDivisionError\<close> from the
  modulus when \<open>h = 0\<close>, and with the assertion otherwise. When \<open>h\<close> divides
  \<open>d_model\<close> the module is built with \<open>d_k = d_model div h\<close>, so \<open>d_k * h = d_model\<close>.
  The check is part of the constructor; \<open>MultiHeadedAttention_forward\<close> has none.
\<close>

theorem MultiHeadedAttention_init_divisibility:
  assumes "0 < d_model" and "0 \<le> dropout" and "dropout \<le> 1"
  shows "(isl (MultiHeadedAttention_init \<rho> h d_model dropout) \<longleftrightarrow> \<not> (h \<noteq> 0 \<and> h dvd d_model)) \<and>
         (h = 0 \<longrightarrow> MultiHeadedAttention_init \<rho> h d_model dropout = Inl ZeroDivisionError) \<and>
         (h \<noteq> 0 \<and> \<not> h dvd d_model \<longrightarrow>
            MultiHeadedAttention_init \<rho> h d_model dropout = Inl AssertionError) \<and>
         (h \<noteq> 0 \<and> h dvd d_model \<longrightarrow>
            (\<exists>m. MultiHeadedAttention_init \<rho> h d_model dropout = Inr m \<and>
                 mha_h m = h \<and> mha_d_k m = d_model div h \<and> mha_d_k m * mha_h m = d_model))"
proof -
  have ok: "h \<noteq> 0 \<Longrightarrow> h dvd d_model \<Longrightarrow>
      \<exists>m. MultiHeadedAttention_init \<rho> h d_model dropout = Inr m \<and>
          mha_h m = h \<and> mha_d_k m = d_model div h \<and> mha_d_k m * mha_h m = d_model"
    using assms
    by (simp add: MultiHeadedAttention_init_def Linear_init_ok Dropout_init_ok mod_eq_0_iff_dvd)
  have bad: "h \<noteq> 0 \<Longrightarrow> \<not> h dvd d_model \<Longrightarrow>
      MultiHeadedAttention_init \<rho> h d_model dropout = Inl AssertionError"
    by (simp add: MultiHeadedAttention_init_def mod_eq_0_iff_dvd)
  have zero: "h = 0 \<Longrightarrow> MultiHeadedAttention_init \<rho> h d_model dropout = Inl ZeroDivisionError"
    by (simp add: MultiHeadedAttention_init_def)
  show ?thesis using ok bad zero by (cases "h = 0"; cases "h dvd d_model") auto
qed

theorem MultiHeadedAttention_init_divisibility_witness:
  "(\<exists>m. MultiHeadedAttention_init (\<lambda>idx. 0) 2 8 (1 / 10) = Inr m \<and> mha_h m = 2 \<and> mha_d_k m = 4) \<and>
   MultiHeadedAttention_init (\<lambda>idx. 0) 3 8 (1 / 10) = Inl AssertionError \<and>
   MultiHeadedAttention_init (\<lambda>idx. 0) 0 8 (1 / 10) = Inl ZeroDivisionError"
  using MultiHeadedAttention_init_divisibility [of 8 "1 / 10" "\<lambda>idx. 0" 2]
    MultiHeadedAttention_init_divisibility [of 8 "1 / 10" "\<lambda>idx. 0" 3]
    MultiHeadedAttention_init_divisibility [of 8 "1 / 10" "\<lambda>idx. 0" 0]
  by auto

lemma broadcast_dim_same: "broadcast_dim n n = Inr n"
  by (simp add: broadcast_dim_def)

lemma broadcast_dim_one_right: "broadcast_dim n 1 = Inr n" "broadcast_dim n (Suc 0) = Inr n"
  by (simp_all add: broadcast_dim_def)

lemma broadcast_dim_one_left: "broadcast_dim 1 n = Inr n" "broadcast_dim (Suc 0) n = Inr n"
  by (simp_all add: broadcast_dim_def)

lemma pick_one: "pick 1 i = 0" "pick (Suc 0) i = 0"
  by (simp_all add: pick_def)

lemma broadcast_op_Inr:
  assumes "broadcast_dim (nrows a) (nrows b) = Inr r" "broadcast_dim (ncols a) (ncols b) = Inr c"
  shows "broadcast_op f a b =
     Inr \<lparr>nrows = r, ncols = c,
          elem = (\<lambda>i j. f (elem a (pick (nrows a) i) (pick (ncols a) j))
                           (elem b (pick (nrows b) i) (pick (ncols b) j)))\<rparr>"
  using assms by (simp add: broadcast_op_def)

lemma row_std_nonneg: "0 \<le> row_std x i"
  by (simp add: row_std_def sum_nonneg)

lemma LayerNorm_forward_elem:
  assumes "2 \<le> ncols x"
    and "nrows (ln_a_2 self) = 1" and "ncols (ln_a_2 self) = ncols x"
    and "nrows (ln_b_2 self) = 1" and "ncols (ln_b_2 self) = ncols x"
    and "0 < ln_eps self"
  shows "\<exists>y. LayerNorm_forward self x = Inr y \<and> nrows y = nrows x \<and> ncols y = ncols x \<and>
     (\<forall>i<nrows x. \<forall>j<ncols x. elem y i j =
        elem (ln_a_2 self) 0 j * (elem x i j - row_mean x i) / (row_std x i + ln_eps self)
        + elem (ln_b_2 self) 0 j)"
proof -
  define mean where "mean = \<lparr>nrows = nrows x, ncols = 1, elem = (\<lambda>i (j::nat). row_mean x i)\<rparr>"
  define std where "std = \<lparr>nrows = nrows x, ncols = 1, elem = (\<lambda>i (j::nat). row_std x i)\<rparr>"
  define centred where "centred = \<lparr>nrows = nrows x, ncols = ncols x,
      elem = (\<lambda>i j. elem x (pick (nrows x) i) (pick (ncols x) j) - row_mean x (pick (nrows x) i))\<rparr>"
  define scaled where "scaled = \<lparr>nrows = nrows x, ncols = ncols x,
      elem = (\<lambda>i j. elem (ln_a_2 self) 0 (pick (ncols x) j) *
                     elem centred (pick (nrows x) i) (pick (ncols x) j))\<rparr>"
  define se where "se = tmap (\<lambda>v. v + ln_eps self) std"
  define q where "q = \<lparr>nrows = nrows x, ncols = ncols x,
      elem = (\<lambda>i j. elem scaled (pick (nrows x) i) (pick (ncols x) j) /
                     elem se (pick (nrows x) i) 0)\<rparr>"
  define y where "y = \<lparr>nrows = nrows x, ncols = ncols x,
      elem = (\<lambda>i j. elem q (pick (nrows x) i) (pick (ncols x) j) +
                     elem (ln_b_2 self) 0 (pick (ncols x) j))\<rparr>"
  have m: "mean_last x = Inr mean" using assms(1) by (simp add: mean_last_def mean_def)
  have s: "std_last x = Inr std" using assms(1) by (simp add: std_last_def std_def)
  have c: "broadcast_op (-) x mean = Inr centred"
    by (subst broadcast_op_Inr [where r = "nrows x" and c = "ncols x"])
       (simp_all add: mean_def centred_def broadcast_dim_same broadcast_dim_one_right pick_one)
  have sc: "broadcast_op (*) (ln_a_2 self) centred = Inr scaled"
    by (subst broadcast_op_Inr [where r = "nrows x" and c = "ncols x"])
       (simp_all add: assms centred_def scaled_def broadcast_dim_same broadcast_dim_one_left pick_one)
  have nz: "\<not> (\<exists>i<nrows se. \<exists>j<ncols se. elem se i j = 0)"
    using row_std_nonneg [of x] assms(6)
    by (auto simp: se_def tmap_def std_def add_nonneg_eq_0_iff)
  have d: "tdiv scaled se = Inr q"
    unfolding tdiv_def using nz
    by (simp add: broadcast_op_Inr [where r = "nrows x" and c = "ncols x"] scaled_def se_def tmap_def std_def
        q_def broadcast_dim_same broadcast_dim_one_right pick_one)
  have r: "broadcast_op (+) q (ln_b_2 self) = Inr y"
    by (subst broadcast_op_Inr [where r = "nrows x" and c = "ncols x"])
       (simp_all add: assms q_def y_def broadcast_dim_same broadcast_dim_one_right pick_one)
  have "LayerNorm_forward self x = Inr y"
    by (simp add: LayerNorm_forward_def m s c sc d [unfolded se_def] r)
  moreover have "\<forall>i<nrows x. \<forall>j<ncols x. elem y i j =
        elem (ln_a_2 self) 0 j * (elem x i j - row_mean x i) / (row_std x i + ln_eps self)
        + elem (ln_b_2 self) 0 j"
    by (simp add: y_def q_def scaled_def centred_def se_def tmap_def std_def pick_in)
  ultimately show ?thesis by (simp add: y_def)
qed






lemma Dropout_forward_shape:
  "nrows (Dropout_forward d \<omega> x) = nrows x" "ncols (Dropout_forward d \<omega> x) = ncols x"
  by (simp_all add: Dropout_forward_def)

lemma broadcast_op_same_shape:
  assumes "nrows b = nrows a" "ncols b = ncols a"
  shows "\<exists>y. broadcast_op f a b = Inr y \<and> nrows y = nrows a \<and> ncols y = ncols a \<and>
           (\<forall>i<nrows a. \<forall>j<ncols a. elem y i j = f (elem a i j) (elem b i j))"
  using assms
  by (simp add: broadcast_op_Inr [where r = "nrows a" and c = "ncols a"] broadcast_dim_same pick_in)

text \<open>
  Claim C5, as the code has it. \<open>SublayerConnection.forward\<close> hands the layer-normalised
  input to the inner transform and adds the dropped-out result to the original input. When
  the inner transform returns a tensor of the input's shape (the docstring's "sublayer
  with the same size"), the output has the input's shape and its element at every position
  is \<open>x + dropout(sublayer(norm(x)))\<close> there.
\<close>

theorem SublayerConnection_forward_residual:
  assumes "LayerNorm_forward (sc_norm self) x = Inr n" and "sublayer n = Inr s"
    and "nrows s = nrows x" and "ncols s = ncols x"
  shows "\<exists>y. SublayerConnection_forward self \<omega> x sublayer = Inr y \<and>
           nrows y = nrows x \<and> ncols y = ncols x \<and>
           (\<forall>i<nrows x. \<forall>j<ncols x.
              elem y i j = elem x i j + elem (Dropout_forward (sc_dropout self) \<omega> s) i j)"
proof -
  have "SublayerConnection_forward self \<omega> x sublayer =
      broadcast_op (+) x (Dropout_forward (sc_dropout self) \<omega> s)"
    by (simp add: SublayerConnection_forward_def assms(1,2))
  then show ?thesis
    using broadcast_op_same_shape [of "Dropout_forward (sc_dropout self) \<omega> s" x "(+)"] assms(3,4)
    by (simp add: Dropout_forward_shape)
qed

theorem SublayerConnection_forward_residual_witness:
  "\<exists>y. SublayerConnection_forward
          \<lparr>sc_norm = \<lparr>ln_a_2 = const_tensor 1 1 2, ln_b_2 = const_tensor 0 1 2,
                      ln_eps = 1 / 10 ^ 6\<rparr>,
           sc_dropout = \<lparr>do_p = 1 / 10, do_training = True\<rparr>\<rparr>
          keep_all (tensor_of [[1, 3]]) (constant_sublayer (tensor_of [[5, 7]])) = Inr y \<and>
        nrows y = nrows (tensor_of [[1, 3 :: real]]) \<and>
        ncols y = ncols (tensor_of [[1, 3 :: real]])"
proof -
  let ?ln = "\<lparr>ln_a_2 = const_tensor 1 1 2, ln_b_2 = const_tensor 0 1 2, ln_eps = 1 / 10 ^ 6\<rparr>"
  let ?self = "\<lparr>sc_norm = ?ln, sc_dropout = \<lparr>do_p = 1 / 10, do_training = True\<rparr>\<rparr>"
  let ?x = "tensor_of [[1, 3 :: real]]"
  let ?s = "tensor_of [[5, 7 :: real]]"
  have sh: "2 \<le> ncols ?x" "nrows (ln_a_2 ?ln) = 1" "ncols (ln_a_2 ?ln) = ncols ?x"
    "nrows (ln_b_2 ?ln) = 1" "ncols (ln_b_2 ?ln) = ncols ?x" "0 < ln_eps ?ln"
    by (simp_all add: tensor_of_def const_tensor_def)
  from LayerNorm_forward_elem [OF sh] obtain n where
    n: "LayerNorm_forward (sc_norm ?self) ?x = Inr n" by auto
  have s: "constant_sublayer ?s n = Inr ?s" by (simp add: constant_sublayer_def)
  have eq: "nrows ?s = nrows ?x" "ncols ?s = ncols ?x" by (simp_all add: tensor_of_def)
  from SublayerConnection_forward_residual
    [where sublayer = "constant_sublayer ?s" and \<omega> = keep_all, OF n s eq]
  show ?thesis
    by blast
qed

text \<open>
  The claim as stated fails for an inner transform that changes the shape: the addition
  broadcasts, so for an input of one row and an inner transform that returns two rows
  the output has two rows.
\<close>

theorem SublayerConnection_shape_can_change:
  "\<not> isl (SublayerConnection_forward
            \<lparr>sc_norm = \<lparr>ln_a_2 = const_tensor 1 1 2, ln_b_2 = const_tensor 0 1 2,
                        ln_eps = 1 / 10 ^ 6\<rparr>,
             sc_dropout = \<lparr>do_p = 1 / 10, do_training = True\<rparr>\<rparr>
            keep_all (tensor_of [[1, 3]]) (constant_sublayer (tensor_of [[0, 0], [0, 0]]))) \<and>
   nrows (projr (SublayerConnection_forward
            \<lparr>sc_norm = \<lparr>ln_a_2 = const_tensor 1 1 2, ln_b_2 = const_tensor 0 1 2,
                        ln_eps = 1 / 10 ^ 6\<rparr>,
             sc_dropout = \<lparr>do_p = 1 / 10, do_training = True\<rparr>\<rparr>
            keep_all (tensor_of [[1, 3]]) (constant_sublayer (tensor_of [[0, 0], [0, 0]])))) = 2 \<and>
   nrows (tensor_of [[1, 3 :: real]]) = 1"
proof -
  let ?ln = "\<lparr>ln_a_2 = const_tensor 1 1 2, ln_b_2 = const_tensor 0 1 2, ln_eps = 1 / 10 ^ 6\<rparr>"
  let ?self = "\<lparr>sc_norm = ?ln, sc_dropout = \<lparr>do_p = 1 / 10, do_training = True\<rparr>\<rparr>"
  let ?x = "tensor_of [[1, 3 :: real]]"
  let ?s = "tensor_of [[0, 0], [0, 0 :: real]]"
  have sh: "2 \<le> ncols ?x" "nrows (ln_a_2 ?ln) = 1" "ncols (ln_a_2 ?ln) = ncols ?x"
    "nrows (ln_b_2 ?ln) = 1" "ncols (ln_b_2 ?ln) = ncols ?x" "0 < ln_eps ?ln"
    by (simp_all add: tensor_of_def const_tensor_def)
  from LayerNorm_forward_elem [OF sh] obtain n where
    n: "LayerNorm_forward (sc_norm ?self) ?x = Inr n" by auto
  have "SublayerConnection_forward ?self keep_all ?x (constant_sublayer ?s) =
      broadcast_op (+) ?x (Dropout_forward (sc_dropout ?self) keep_all ?s)"
    using n by (simp add: SublayerConnection_forward_def constant_sublayer_def)
  also have "\<dots> = Inr \<lparr>nrows = 2, ncols = 2,
       elem = (\<lambda>i j. elem ?x (pick (nrows ?x) i) (pick (ncols ?x) j) +
          elem (Dropout_forward (sc_dropout ?self) keep_all ?s)
            (pick (nrows (Dropout_forward (sc_dropout ?self) keep_all ?s)) i)
            (pick (ncols (Dropout_forward (sc_dropout ?self) keep_all ?s)) j))\<rparr>"
    by (rule broadcast_op_Inr)
       (simp_all add: Dropout_forward_shape tensor_of_def broadcast_dim_def)
  finally show ?thesis by (simp add: tensor_of_def)
qed

lemma attention_split:
  "attention query key value msk dropout =
     bnd (bnd (matmul query (transpose_t key)) (\<lambda>qk.
      bnd (div_scalar qk (sqrt (real (ncols query)))) (\<lambda>scores.
      (case msk of None \<Rightarrow> Inr scores
           | Some m \<Rightarrow> masked_fill scores (eq0 m) (- (10 ^ 9))))))
      (\<lambda>scores. bnd (matmul (case dropout of None \<Rightarrow> softmax scores | Some f \<Rightarrow> f (softmax scores)) value)
         (\<lambda>x. Inr (x, case dropout of None \<Rightarrow> softmax scores | Some f \<Rightarrow> f (softmax scores))))"
  by (simp add: attention_def Let_def bnd_assoc)

lemma attention_dropout_after_softmax:
  assumes "attention query key value msk (Some f) = Inr (x, p)"
    and "attention query key value msk None = Inr (x0, p0)"
  shows "p = f p0 \<and> matmul p value = Inr x"
proof -
  from assms(2) obtain s where
    s: "bnd (matmul query (transpose_t key)) (\<lambda>qk.
      bnd (div_scalar qk (sqrt (real (ncols query)))) (\<lambda>scores.
      (case msk of None \<Rightarrow> Inr scores
           | Some m \<Rightarrow> masked_fill scores (eq0 m) (- (10 ^ 9))))) = Inr s"
    and p0: "p0 = softmax s"
    unfolding attention_split by (auto simp: bnd_Inr_iff)
  from assms(1) show ?thesis
    unfolding attention_split s p0 by (auto simp: bnd_Inr_iff)
qed

lemma attention_with_dropout:
  assumes "attention query key value msk None = Inr (x0, p0)"
    and "ncols (f p0) = ncols p0"
  shows "\<exists>x. attention query key value msk (Some f) = Inr (x, f p0) \<and>
           nrows x = nrows (f p0) \<and> ncols x = ncols x0"
proof -
  from assms(1) obtain s where
    s: "bnd (matmul query (transpose_t key)) (\<lambda>qk.
      bnd (div_scalar qk (sqrt (real (ncols query)))) (\<lambda>scores.
      (case msk of None \<Rightarrow> Inr scores
           | Some m \<Rightarrow> masked_fill scores (eq0 m) (- (10 ^ 9))))) = Inr s"
    and p0: "p0 = softmax s" and x0: "matmul (softmax s) value = Inr x0"
    unfolding attention_split by (auto simp: bnd_Inr_iff)
  from x0 have "ncols (softmax s) = nrows value" "ncols x0 = ncols value"
    by (auto simp: matmul_def split: if_splits)
  then show ?thesis
    unfolding attention_split s using assms(2) p0 by (simp add: matmul_def)
qed

lemma traverse_Inr:
  "traverse f xs = Inr ys \<Longrightarrow> length ys = length xs \<and> (\<forall>i<length xs. f (xs ! i) = Inr (ys ! i))"
proof (induction xs arbitrary: ys)
  case Nil
  then show ?case by simp
next
  case (Cons x xs)
  from Cons.prems obtain y ys' where
    y: "f x = Inr y" and ys': "traverse f xs = Inr ys'" and ys: "ys = y # ys'"
    by (auto simp: bnd_Inr_iff)
  from Cons.IH [OF ys'] y ys show ?case
    by (auto simp: nth_Cons split: nat.splits)
qed

lemma traverse_all:
  assumes "\<And>x. x \<in> set xs \<Longrightarrow> \<exists>y. f x = Inr y"
  shows "\<exists>ys. traverse f xs = Inr ys"
  using assms
proof (induction xs)
  case Nil
  then show ?case by simp
next
  case (Cons x xs)
  then obtain y ys where "f x = Inr y" "traverse f xs = Inr ys"
    by (metis list.set_intros(1) list.set_intros(2))
  then show ?case by simp
qed

lemma attention_weights_softmax:
  assumes "attention query key value msk None = Inr (x0, p0)"
  shows "\<exists>s. p0 = softmax s"
  using assms unfolding attention_split by (auto simp: bnd_Inr_iff)

lemma attention_any_mask_rows_sum:
  assumes "attention query key value msk None = Inr (x0, p0)" and "0 < ncols p0"
  shows "(\<Sum>j<ncols p0. elem p0 i j) = 1"
proof -
  from attention_weights_softmax [OF assms(1)] obtain s where p0: "p0 = softmax s" by blast
  with assms(2) have "0 < ncols s" by (simp add: softmax_def)
  from softmax_row_sum [OF this] show ?thesis by (simp add: p0)
qed

lemma Dropout_keep_all_row_sum:
  assumes "do_training d" and "do_p d \<noteq> 1"
  shows "(\<Sum>j<n. elem (Dropout_forward d keep_all t) i j) = (\<Sum>j<n. elem t i j) / (1 - do_p d)"
  using assms by (simp add: Dropout_forward_def keep_all_def sum_divide_distrib)

section \<open>Results on the pairs of the siamese network\<close>

lemma for_loop_append:
  "for_loop (xs @ ys) body s = bnd (for_loop xs body s) (for_loop ys body)"
proof (induction xs arbitrary: s)
  case Nil
  then show ?case by simp
next
  case (Cons x xs)
  then show ?case by (cases "body x s") (simp_all add: bnd_assoc)
qed

lemma nth_concat_uniform:
  assumes "\<forall>b \<in> set bs. length b = L" and "k < length bs" and "r < L"
  shows "concat bs ! (k * L + r) = bs ! k ! r"
  using assms
proof (induction bs arbitrary: k)
  case Nil
  then show ?case by simp
next
  case (Cons b bs)
  show ?case
  proof (cases k)
    case 0
    then show ?thesis using Cons.prems by (simp add: nth_append)
  next
    case (Suc k')
    have "concat (b # bs) ! (k * L + r) = concat bs ! (k' * L + r)"
      using Cons.prems Suc by (simp add: nth_append)
    also have "\<dots> = bs ! k' ! r"
      using Cons.prems Suc by (intro Cons.IH) auto
    finally show ?thesis using Suc by simp
  qed
qed

lemma length_concat_uniform:
  "\<forall>b \<in> set bs. length b = L \<Longrightarrow> length (concat bs) = length bs * L"
  by (induction bs) auto

lemma np_where_eq_props:
  assumes "i < length (np_where_eq labels c)"
  shows "np_where_eq labels c ! i < length labels" and "labels ! (np_where_eq labels c ! i) = c"
proof -
  have "np_where_eq labels c ! i \<in> set (np_where_eq labels c)"
    using assms by simp
  then show "np_where_eq labels c ! i < length labels" "labels ! (np_where_eq labels c ! i) = c"
    by (auto simp: np_where_eq_def)
qed

lemma np_where_eq_distinct: "distinct (np_where_eq labels c)"
  by (simp add: np_where_eq_def)

lemma length_np_where_eq: "length (np_where_eq labels c) = count_list labels c"
proof -
  have "length (filter (\<lambda>k. labels ! k = c) [0..<length labels]) =
        length (filter (\<lambda>x. x = c) (map ((!) labels) [0..<length labels]))"
    by (simp add: filter_map comp_def)
  also have "map ((!) labels) [0..<length labels] = labels"
    by (rule map_nth)
  also have "length (filter (\<lambda>x. x = c) labels) = count_list labels c"
    by (induction labels) auto
  finally show ?thesis by (simp add: np_where_eq_def)
qed

lemma digit_indices_nth:
  "d < 10 \<Longrightarrow> map (np_where_eq labels) [0..<10] ! d = np_where_eq labels d"
  by simp

lemma pair_body_step:
  assumes "d < 10" and "Suc i < length (np_where_eq labels d)"
    and "\<forall>c<10. i < length (np_where_eq labels c)"
    and "length labels \<le> length inputs"
  shows "pair_body inputs (map (np_where_eq labels) [0..<10]) rnd 10 d i (ps, ls, c) =
     Inr (ps @ [positive_pair inputs labels d i, negative_pair inputs labels d i (rnd c)],
          ls @ [1, 0], c + 1)"
proof -
  let ?dn = "(d + rnd c) mod 10"
  have dn: "?dn < 10" by simp
  have i: "i < length (np_where_eq labels d)" using assms(2) by simp
  have idn: "i < length (np_where_eq labels ?dn)" using assms(3) dn by blast
  have z: "np_where_eq labels d ! i < length inputs"
    "np_where_eq labels d ! Suc i < length inputs"
    "np_where_eq labels ?dn ! i < length inputs"
    using np_where_eq_props(1) [OF i] np_where_eq_props(1) [OF assms(2)]
      np_where_eq_props(1) [OF idn] assms(4) by simp_all
  show ?thesis
    using assms(1,2) i idn z dn
    by (simp add: pair_body_def getitem_def Let_def positive_pair_def negative_pair_def)
qed

lemma inner_loop:
  assumes "d < 10" and "\<forall>c<10. n < length (np_where_eq labels c)"
    and "length labels \<le> length inputs" and "m \<le> n"
  shows "for_loop [0..<m] (pair_body inputs (map (np_where_eq labels) [0..<10]) rnd 10 d) (ps, ls, c) =
     Inr (ps @ concat (map (\<lambda>i. [positive_pair inputs labels d i,
                                  negative_pair inputs labels d i (rnd (c + i))]) [0..<m]),
          ls @ concat (replicate m [1, 0]), c + m)"
  using assms(4)
proof (induction m)
  case 0
  then show ?case by simp
next
  case (Suc m)
  have step: "pair_body inputs (map (np_where_eq labels) [0..<10]) rnd 10 d m (ps', ls', c') =
     Inr (ps' @ [positive_pair inputs labels d m, negative_pair inputs labels d m (rnd c')],
          ls' @ [1, 0], c' + 1)" for ps' ls' c'
    using Suc.prems assms(1,2,3) by (intro pair_body_step) auto
  have rep: "concat (replicate m [1, 0 :: real]) @ [1, 0] = [1, 0] @ concat (replicate m [1, 0])"
    by (induction m) auto
  show ?case
    using Suc.IH Suc.prems
    by (simp add: for_loop_append step rep del: replicate.simps)
       (simp add: replicate_app_Cons_same)
qed

lemma outer_loop:
  assumes "\<forall>c<10. n < length (np_where_eq labels c)"
    and "length labels \<le> length inputs" and "D \<le> 10"
  shows "for_loop [0..<D]
           (\<lambda>d. for_loop [0..<n] (pair_body inputs (map (np_where_eq labels) [0..<10]) rnd 10 d))
           ([], [], 0) =
     Inr (concat (map (\<lambda>d. concat (map (\<lambda>i. [positive_pair inputs labels d i,
                                              negative_pair inputs labels d i (rnd (d * n + i))])
                                    [0..<n])) [0..<D]),
          concat (replicate (D * n) [1, 0]), D * n)"
  using assms(3)
proof (induction D)
  case 0
  then show ?case by simp
next
  case (Suc D)
  have D: "D < 10" using Suc.prems by simp
  have "n + D * n = D * n + n" by simp
  then have rep: "concat (replicate (D * n) [1, 0 :: real]) @ concat (replicate n [1, 0]) =
        concat (replicate (n + D * n) [1, 0])"
    by (simp only: replicate_add concat_append)
  show ?case
    using Suc.IH Suc.prems
    by (simp add: for_loop_append inner_loop [OF D assms(1,2) order_refl] rep)
qed

lemma positive_pair_same_class:
  assumes "Suc i < length (np_where_eq labels d)"
  shows "same_class_pair inputs labels d (positive_pair inputs labels d i)"
proof -
  let ?I = "np_where_eq labels d"
  have i: "i < length ?I" using assms by simp
  have "?I ! i \<noteq> ?I ! Suc i"
    using np_where_eq_distinct [of labels d] assms i by (simp add: nth_eq_iff_index_eq)
  then show ?thesis
    unfolding same_class_pair_def positive_pair_def
    using np_where_eq_props [OF i] np_where_eq_props [OF assms]
    by (intro exI [of _ "?I ! i"] conjI exI [of _ "?I ! Suc i"]) simp_all
qed

lemma negative_pair_cross_class:
  assumes "d < 10" and "1 \<le> inc" and "inc < 10"
    and "\<forall>c<10. i < length (np_where_eq labels c)"
  shows "cross_class_pair inputs labels d (negative_pair inputs labels d i inc)"
proof -
  let ?dn = "(d + inc) mod 10"
  have dn: "?dn < 10" by simp
  have ne: "?dn \<noteq> d" using assms(1,2,3) by presburger
  have i: "i < length (np_where_eq labels d)" and idn: "i < length (np_where_eq labels ?dn)"
    using assms(1,4) dn by blast+
  show ?thesis
    unfolding cross_class_pair_def negative_pair_def
    using np_where_eq_props [OF i] np_where_eq_props [OF idn] ne dn
    by (intro exI [of _ "np_where_eq labels d ! i"] conjI
        exI [of _ "np_where_eq labels ?dn ! i"]) simp_all
qed

lemma alternating_labels:
  assumes "k < m"
  shows "concat (replicate m [1, 0 :: real]) ! (2 * k) = 1"
    and "concat (replicate m [1, 0 :: real]) ! (2 * k + 1) = 0"
proof -
  have u: "\<forall>b \<in> set (replicate m [1, 0 :: real]). length b = 2" by simp
  have "concat (replicate m [1, 0 :: real]) ! (k * 2 + 0) = replicate m [1, 0] ! k ! 0"
    using assms by (intro nth_concat_uniform [OF u]) simp_all
  then show "concat (replicate m [1, 0 :: real]) ! (2 * k) = 1"
    using assms by (simp add: mult.commute)
  have "concat (replicate m [1, 0 :: real]) ! (k * 2 + 1) = replicate m [1, 0] ! k ! 1"
    using assms by (intro nth_concat_uniform [OF u]) simp_all
  then show "concat (replicate m [1, 0 :: real]) ! (2 * k + 1) = 0"
    using assms by (simp add: mult.commute)
qed

lemma block_nth:
  fixes f g :: "nat \<Rightarrow> nat \<Rightarrow> 'b"
  assumes "d < D" and "i < n"
  shows "concat (map (\<lambda>d. concat (map (\<lambda>i. [f d i, g d i]) [0..<n])) [0..<D]) ! (2 * (d * n + i))
           = f d i"
    and "concat (map (\<lambda>d. concat (map (\<lambda>i. [f d i, g d i]) [0..<n])) [0..<D]) ! (2 * (d * n + i) + 1)
           = g d i"
    and "length (concat (map (\<lambda>d. concat (map (\<lambda>i. [f d i, g d i]) [0..<n])) [0..<D])) = 2 * n * D"
proof -
  let ?blk = "\<lambda>d. concat (map (\<lambda>i. [f d i, g d i]) [0..<n])"
  let ?bs = "map ?blk [0..<D]"
  have inner: "\<forall>b \<in> set (map (\<lambda>i. [f d i, g d i]) [0..<n]). length b = 2" for d by simp
  have len: "length (?blk d) = n * 2" for d
    using length_concat_uniform [OF inner [of d]] by simp
  have u: "\<forall>b \<in> set ?bs. length b = n * 2" using len by auto
  have i2: "2 * i < n * 2" "2 * i + 1 < n * 2" using assms(2) by simp_all
  have "concat ?bs ! (d * (n * 2) + 2 * i) = ?bs ! d ! (2 * i)"
    using assms(1) i2 by (intro nth_concat_uniform [OF u]) simp_all
  also have "\<dots> = ?blk d ! (i * 2 + 0)" using assms(1) by (simp add: mult.commute)
  also have "\<dots> = map (\<lambda>i. [f d i, g d i]) [0..<n] ! i ! 0"
    using assms(2) by (intro nth_concat_uniform [OF inner]) simp_all
  finally have r0: "concat ?bs ! (d * (n * 2) + 2 * i) = f d i" using assms(2) by simp
  have e0: "2 * (d * n + i) = d * (n * 2) + 2 * i" by (simp add: algebra_simps)
  show "concat ?bs ! (2 * (d * n + i)) = f d i" unfolding e0 by (rule r0)
  have "concat ?bs ! (d * (n * 2) + (2 * i + 1)) = ?bs ! d ! (2 * i + 1)"
    using assms(1) i2 by (intro nth_concat_uniform [OF u]) simp_all
  also have "\<dots> = ?blk d ! (i * 2 + 1)" using assms(1) by (simp add: mult.commute)
  also have "\<dots> = map (\<lambda>i. [f d i, g d i]) [0..<n] ! i ! 1"
    using assms(2) by (intro nth_concat_uniform [OF inner]) simp_all
  finally have r1: "concat ?bs ! (d * (n * 2) + (2 * i + 1)) = g d i" using assms(2) by simp
  have e1: "2 * (d * n + i) + 1 = d * (n * 2) + (2 * i + 1)" by (simp add: algebra_simps)
  show "concat ?bs ! (2 * (d * n + i) + 1) = g d i" unfolding e1 by (rule r1)
  show "length (concat ?bs) = 2 * n * D"
    using length_concat_uniform [OF u] by simp
qed

lemma smallest_class:
  "Min (set (map (\<lambda>d. length (map (np_where_eq labels) [0..<10] ! d)) [0..<10])) =
   Min (count_list labels ` {..<10})"
proof -
  have "map (\<lambda>d. length (map (np_where_eq labels) [0..<10] ! d)) [0..<10] =
        map (count_list labels) [0..<10]"
    by (rule map_cong) (simp_all add: length_np_where_eq del: upt_Suc)
  moreover have "set (map (count_list labels) [0..<10]) = count_list labels ` {..<10}"
    by (simp add: atLeast0LessThan del: upt_Suc)
  ultimately show ?thesis by simp
qed

lemma below_every_class:
  assumes "\<forall>c<10. 2 \<le> count_list labels c"
  shows "\<forall>c<10. pairs_per_class labels < length (np_where_eq labels c)"
proof (intro allI impI)
  fix c :: nat assume c: "c < 10"
  let ?S = "count_list labels ` {..<10}"
  have fin: "finite ?S" "?S \<noteq> {}" by (auto simp: lessThan_empty_iff)
  have "Min ?S \<le> count_list labels c" using c by (intro Min_le) auto
  moreover have "2 \<le> Min ?S" using assms fin by (simp add: Min_ge_iff)
  ultimately show "pairs_per_class labels < length (np_where_eq labels c)"
    by (simp add: pairs_per_class_def length_np_where_eq)
qed

lemma block_length:
  "length (concat (map (\<lambda>d. concat (map (\<lambda>i. [f d i, g d i]) [0..<n])) [0..<D])) = 2 * n * D"
proof -
  have inner: "\<forall>b \<in> set (map (\<lambda>i. [f d i, g d i]) [0..<n]). length b = 2" for d by simp
  have len: "length (concat (map (\<lambda>i. [f d i, g d i]) [0..<n])) = n * 2" for d
    using length_concat_uniform [OF inner [of d]] by simp
  have "\<forall>b \<in> set (map (\<lambda>d. concat (map (\<lambda>i. [f d i, g d i]) [0..<n])) [0..<D]).
      length b = n * 2"
    using len by auto
  from length_concat_uniform [OF this] show ?thesis by simp
qed

text \<open>
  Claim C10. When each of the ten classes occurs at least twice among the labels, every
  label has a sample, and every draw lies in the range of \<open>random.randrange(1, 10)\<close>,
  \<open>create_pairs\<close> returns a list of pairs and a list of labels, both of length
  \<open>2 * n * 10\<close> with \<open>n\<close> one less than the size of the smallest class. The labels
  alternate 1, 0. For every class \<open>d\<close> and every \<open>i < n\<close>, the pair at position
  \<open>2 * (d * n + i)\<close> holds two different samples of class \<open>d\<close>, and the pair after it
  holds a sample of class \<open>d\<close> and a sample of another class: \<open>n\<close> positive and \<open>n\<close>
  negative pairs per class.
\<close>

theorem create_pairs_balanced:
  assumes "\<forall>c<10. 2 \<le> count_list labels c"
    and "length labels \<le> length inputs"
    and "\<forall>k. 1 \<le> rnd k \<and> rnd k < 10"
  shows "\<exists>pairs out. create_pairs inputs labels rnd = Inr (pairs, out) \<and>
     length pairs = 2 * pairs_per_class labels * 10 \<and>
     length out = 2 * pairs_per_class labels * 10 \<and>
     (\<forall>k < pairs_per_class labels * 10. out ! (2 * k) = 1 \<and> out ! (2 * k + 1) = 0) \<and>
     (\<forall>d<10. \<forall>i < pairs_per_class labels.
        same_class_pair inputs labels d (pairs ! (2 * (d * pairs_per_class labels + i))) \<and>
        cross_class_pair inputs labels d (pairs ! (2 * (d * pairs_per_class labels + i) + 1)))"
proof -
  define n where "n = pairs_per_class labels"
  define pos where "pos = positive_pair inputs labels"
  define neg where "neg = (\<lambda>d i. negative_pair inputs labels d i (rnd (d * n + i)))"
  define pairs where "pairs = concat (map (\<lambda>d. concat (map (\<lambda>i. [pos d i, neg d i]) [0..<n])) [0..<10])"
  define out where "out = concat (replicate (10 * n) [1, 0 :: real])"
  have below: "\<forall>c<10. n < length (np_where_eq labels c)"
    using below_every_class [OF assms(1)] by (simp add: n_def)
  have nn: "nat (int (Min (count_list labels ` {..<10})) - 1) = n"
    by (simp add: n_def pairs_per_class_def)
  have run: "create_pairs inputs labels rnd = Inr (pairs, out)"
    unfolding create_pairs_def Let_def smallest_class nn
    by (simp add: outer_loop [OF below assms(2) order_refl] pairs_def out_def pos_def neg_def
        del: upt_Suc)
  have lp: "length pairs = 2 * n * 10"
    unfolding pairs_def by (rule block_length)
  have lo: "length out = 2 * n * 10"
    unfolding out_def using length_concat_uniform [of "replicate (10 * n) [1, 0 :: real]" 2]
    by simp
  have labs: "\<forall>k < n * 10. out ! (2 * k) = 1 \<and> out ! (2 * k + 1) = 0"
    unfolding out_def using alternating_labels [of _ "10 * n"] by (simp add: mult.commute)
  have prs: "\<forall>d<10. \<forall>i<n.
        same_class_pair inputs labels d (pairs ! (2 * (d * n + i))) \<and>
        cross_class_pair inputs labels d (pairs ! (2 * (d * n + i) + 1))"
  proof (intro allI impI)
    fix d i :: nat assume d: "d < 10" and i: "i < n"
    have p0: "pairs ! (2 * (d * n + i)) = pos d i"
      unfolding pairs_def using d i by (rule block_nth(1))
    have p1: "pairs ! (2 * (d * n + i) + 1) = neg d i"
      unfolding pairs_def using d i by (rule block_nth(2))
    have "Suc i < length (np_where_eq labels d)" using below d i by fastforce
    then have a: "same_class_pair inputs labels d (pos d i)"
      unfolding pos_def by (rule positive_pair_same_class)
    have "\<forall>c<10. i < length (np_where_eq labels c)" using below i by fastforce
    then have b: "cross_class_pair inputs labels d (neg d i)"
      unfolding neg_def using d assms(3) by (intro negative_pair_cross_class) auto
    from a b show "same_class_pair inputs labels d (pairs ! (2 * (d * n + i))) \<and>
        cross_class_pair inputs labels d (pairs ! (2 * (d * n + i) + 1))"
      unfolding p0 p1 by blast
  qed
  from run lp lo labs prs show ?thesis unfolding n_def by blast
qed

lemma all_less_ten:
  "(\<forall>c<10. P c) \<longleftrightarrow>
     P (0::nat) \<and> P 1 \<and> P 2 \<and> P 3 \<and> P 4 \<and> P 5 \<and> P 6 \<and> P 7 \<and> P 8 \<and> P 9"
proof -
  have "c < 10 \<longleftrightarrow> c = 0 \<or> c = 1 \<or> c = 2 \<or> c = 3 \<or> c = 4 \<or> c = 5 \<or> c = 6 \<or> c = 7
      \<or> c = 8 \<or> c = 9" for c :: nat
    by arith
  then show ?thesis by metis
qed

theorem create_pairs_balanced_witness:
  "\<exists>pairs out.
     create_pairs [0, 1, 2, 3, 4, 5, 6, 7, 8, 9, 10, 11, 12, 13, 14, 15, 16, 17, 18, 19 :: nat]
       [0, 1, 2, 3, 4, 5, 6, 7, 8, 9, 0, 1, 2, 3, 4, 5, 6, 7, 8, 9] first_increment
       = Inr (pairs, out) \<and>
     length pairs = 20 \<and> length out = 20 \<and> out ! 0 = 1 \<and> out ! 1 = 0 \<and>
     same_class_pair [0, 1, 2, 3, 4, 5, 6, 7, 8, 9, 10, 11, 12, 13, 14, 15, 16, 17, 18, 19 :: nat]
       [0, 1, 2, 3, 4, 5, 6, 7, 8, 9, 0, 1, 2, 3, 4, 5, 6, 7, 8, 9] 0 (pairs ! 0) \<and>
     cross_class_pair [0, 1, 2, 3, 4, 5, 6, 7, 8, 9, 10, 11, 12, 13, 14, 15, 16, 17, 18, 19 :: nat]
       [0, 1, 2, 3, 4, 5, 6, 7, 8, 9, 0, 1, 2, 3, 4, 5, 6, 7, 8, 9] 0 (pairs ! 1)"
proof -
  let ?inputs = "[0, 1, 2, 3, 4, 5, 6, 7, 8, 9, 10, 11, 12, 13, 14, 15, 16, 17, 18, 19 :: nat]"
  let ?labels = "[0, 1, 2, 3, 4, 5, 6, 7, 8, 9, 0, 1, 2, 3, 4, 5, 6, 7, 8, 9 :: nat]"
  have h1: "\<forall>c<10. 2 \<le> count_list ?labels c"
    unfolding all_less_ten by simp
  have h2: "length ?labels \<le> length ?inputs" by simp
  have h3: "\<forall>k. 1 \<le> first_increment k \<and> first_increment k < 10"
    by (simp add: first_increment_def)
  have img: "count_list ?labels ` {..<10} = {2}"
  proof -
    have "\<forall>c<10. count_list ?labels c = 2" unfolding all_less_ten by simp
    then have "count_list ?labels ` {..<10} = (\<lambda>c. 2) ` {..<10::nat}"
      by (intro image_cong) auto
    also have "\<dots> = {2}"
      by (simp add: image_constant_conv lessThan_empty_iff)
    finally show ?thesis .
  qed
  have n: "pairs_per_class ?labels = 1"
    unfolding pairs_per_class_def img by simp
  from create_pairs_balanced [OF h1 h2 h3] obtain pairs out where
    r: "create_pairs ?inputs ?labels first_increment = Inr (pairs, out)"
    "length pairs = 2 * pairs_per_class ?labels * 10"
    "length out = 2 * pairs_per_class ?labels * 10"
    "\<forall>k < pairs_per_class ?labels * 10. out ! (2 * k) = 1 \<and> out ! (2 * k + 1) = 0"
    "\<forall>d<10. \<forall>i < pairs_per_class ?labels.
        same_class_pair ?inputs ?labels d (pairs ! (2 * (d * pairs_per_class ?labels + i))) \<and>
        cross_class_pair ?inputs ?labels d (pairs ! (2 * (d * pairs_per_class ?labels + i) + 1))"
    by blast
  from r(4) [unfolded n] have "0 < (1::nat) * 10 \<longrightarrow> out ! (2 * 0) = 1 \<and> out ! (2 * 0 + 1) = 0"
    by (rule spec)
  then have "out ! (2 * 0) = 1 \<and> out ! (2 * 0 + 1) = 0" by simp
  moreover from r(5) [unfolded n] have
    "same_class_pair ?inputs ?labels 0 (pairs ! (2 * (0 * 1 + 0))) \<and>
     cross_class_pair ?inputs ?labels 0 (pairs ! (2 * (0 * 1 + 0) + 1))"
    by (metis zero_less_numeral zero_less_one)
  ultimately show ?thesis using r(1,2,3) unfolding n by simp
qed


section \<open>Results on the forward pass\<close>

lemma Linear_forward_shape:
  assumes "Linear_ok l din dout" and "ncols x = din"
  shows "\<exists>y. Linear_forward l x = Inr y \<and> nrows y = nrows x \<and> ncols y = dout"
proof -
  from assms have w: "nrows (lin_weight l) = dout" "ncols (lin_weight l) = din"
    and b: "nrows (lin_bias l) = 1" "ncols (lin_bias l) = dout"
    by (simp_all add: Linear_ok_def shaped_def)
  define y where "y = \<lparr>nrows = nrows x, ncols = dout,
      elem = (\<lambda>i j. \<Sum>k<ncols x. elem x i k * elem (transpose_t (lin_weight l)) k j)\<rparr>"
  have m: "matmul x (transpose_t (lin_weight l)) = Inr y"
    using w assms(2) by (simp add: matmul_def transpose_t_def y_def)
  have "\<exists>z. broadcast_op (+) y (lin_bias l) = Inr z \<and> nrows z = nrows x \<and> ncols z = dout"
    by (subst broadcast_op_Inr [where r = "nrows x" and c = dout])
       (simp_all add: y_def b broadcast_dim_one_right broadcast_dim_same)
  then show ?thesis by (simp add: Linear_forward_def m)
qed

lemma view_heads_shape:
  assumes "0 < h" and "0 < dk" and "ncols y = nat h * nat dk"
  shows "\<exists>hs. view_heads h dk y = Inr hs \<and> length hs = nat h \<and>
           (\<forall>a<nat h. nrows (hs ! a) = nrows y \<and> ncols (hs ! a) = nat dk)"
proof -
  have w: "0 < nat h * nat dk" using assms(1,2) by simp
  have "(nrows y * ncols y) mod (nat h * nat dk) = 0" using assms(3) by simp
  moreover have "(nrows y * ncols y) div (nat h * nat dk) = nrows y"
    using assms(3) w by simp
  ultimately show ?thesis
    using assms(1,2) by (simp add: view_heads_def Let_def)
qed

lemma attention_dropout_shape:
  assumes "ncols key = ncols query" and "0 < ncols query" and "nrows value = nrows key"
    and "mask_fits msk (nrows query) (nrows key)"
  shows "\<exists>x p. attention query key value msk (Some (Dropout_forward d \<omega>)) = Inr (x, p) \<and>
           nrows x = nrows query \<and> ncols x = ncols value"
proof -
  from attention_weights [OF assms] obtain x0 p0 where
    a: "attention query key value msk None = Inr (x0, p0)"
    and s: "nrows p0 = nrows query" "ncols x0 = ncols value"
    by blast
  from attention_with_dropout [OF a, of "Dropout_forward d \<omega>"] s show ?thesis
    by (auto simp: Dropout_forward_shape)
qed

lemma traverse_map_Inr:
  assumes "\<And>x. x \<in> set xs \<Longrightarrow> \<exists>y. f x = Inr y \<and> P x y"
  shows "\<exists>ys. traverse f xs = Inr ys \<and> length ys = length xs \<and>
           (\<forall>i<length xs. P (xs ! i) (ys ! i))"
  using assms
proof (induction xs)
  case Nil
  then show ?case by simp
next
  case (Cons x xs)
  from Cons.prems [of x] obtain y where y: "f x = Inr y" "P x y" by auto
  from Cons.IH Cons.prems obtain ys where
    ys: "traverse f xs = Inr ys" "length ys = length xs" "\<forall>i<length xs. P (xs ! i) (ys ! i)"
    by (metis list.set_intros(2))
  have "\<forall>i<length (x # xs). P ((x # xs) ! i) ((y # ys) ! i)"
    using y(2) ys(3) by (auto simp: nth_Cons split: nat.splits)
  then show ?case using y(1) ys(1,2) by simp
qed

lemma list_of_length_four:
  assumes "length xs = 4"
  obtains a b c d where "xs = [a, b, c, d]"
proof -
  from assms obtain a xs1 where 1: "xs = a # xs1" "length xs1 = 3"
    by (cases xs) auto
  from 1(2) obtain b xs2 where 2: "xs1 = b # xs2" "length xs2 = 2"
    by (cases xs1) auto
  from 2(2) obtain c xs3 where 3: "xs2 = c # xs3" "length xs3 = 1"
    by (cases xs2) auto
  from 3(2) obtain d where 4: "xs3 = [d]"
    by (cases xs3) auto
  from 1 2 3 4 that show ?thesis by simp
qed

lemma project_shape:
  assumes "Linear_ok l d d" and "ncols x = d" and "0 < h" and "0 < dk"
    and "nat h * nat dk = d"
  shows "\<exists>hs. bnd (Linear_forward l x) (view_heads h dk) = Inr hs \<and> length hs = nat h \<and>
           (\<forall>a<nat h. nrows (hs ! a) = nrows x \<and> ncols (hs ! a) = nat dk)"
proof -
  from Linear_forward_shape [OF assms(1,2)] obtain y where
    y: "Linear_forward l x = Inr y" "nrows y = nrows x" "ncols y = d" by blast
  from view_heads_shape [OF assms(3,4), of y] y(3) assms(5) obtain hs where
    "view_heads h dk y = Inr hs" "length hs = nat h"
    "\<forall>a<nat h. nrows (hs ! a) = nrows y \<and> ncols (hs ! a) = nat dk"
    by auto
  then show ?thesis using y by simp
qed

lemma MultiHeadedAttention_forward_shape:
  assumes ok: "MultiHeadedAttention_ok self d"
    and q: "ncols query = d" and k: "ncols key = d" and v: "ncols value = d"
    and kv: "nrows value = nrows key"
    and fits: "mask_fits msk (nrows query) (nrows key)"
  shows "\<exists>y self'. MultiHeadedAttention_forward self \<omega> query key value msk = Inr (y, self') \<and>
           nrows y = nrows query \<and> ncols y = d"
proof -
  let ?h = "mha_h self" and ?dk = "mha_d_k self"
  from ok have h: "0 < ?h" and dk: "0 < ?dk" and hd: "nat ?h * nat ?dk = d"
    and len: "length (mha_fc_layers self) = 4"
    and lin: "\<forall>l \<in> set (mha_fc_layers self). Linear_ok l d d"
    by (simp_all add: MultiHeadedAttention_ok_def)
  from len obtain l0 l1 l2 l3 where fc: "mha_fc_layers self = [l0, l1, l2, l3]"
    by (rule list_of_length_four)
  from lin fc have l: "Linear_ok l0 d d" "Linear_ok l1 d d" "Linear_ok l2 d d" "Linear_ok l3 d d"
    by simp_all
  from project_shape [OF l(1) q h dk hd] obtain hq where
    hq: "bnd (Linear_forward l0 query) (view_heads ?h ?dk) = Inr hq" "length hq = nat ?h"
      "\<forall>a<nat ?h. nrows (hq ! a) = nrows query \<and> ncols (hq ! a) = nat ?dk" by blast
  from project_shape [OF l(2) k h dk hd] obtain hk where
    hk: "bnd (Linear_forward l1 key) (view_heads ?h ?dk) = Inr hk" "length hk = nat ?h"
      "\<forall>a<nat ?h. nrows (hk ! a) = nrows key \<and> ncols (hk ! a) = nat ?dk" by blast
  from project_shape [OF l(3) v h dk hd] obtain hv where
    hv: "bnd (Linear_forward l2 value) (view_heads ?h ?dk) = Inr hv" "length hv = nat ?h"
      "\<forall>a<nat ?h. nrows (hv ! a) = nrows value \<and> ncols (hv ! a) = nat ?dk" by blast
  have proj: "traverse (\<lambda>(l, x). bnd (Linear_forward l x) (view_heads ?h ?dk))
            (zip (mha_fc_layers self) [query, key, value]) = Inr [hq, hk, hv]"
    by (simp add: fc hq(1) hk(1) hv(1))
  let ?att = "\<lambda>a. attention (hq ! a) (hk ! a) (hv ! a) msk
                      (Some (Dropout_forward (mha_dropout self) (sub \<omega> a)))"
  have each: "\<exists>r. ?att a = Inr r \<and> (nrows (fst r) = nrows query \<and> ncols (fst r) = nat ?dk)"
    if "a \<in> set [0..<length hq]" for a
  proof -
    from that hq(2) have a: "a < nat ?h" by simp
    have "\<exists>x p. ?att a = Inr (x, p) \<and> nrows x = nrows (hq ! a) \<and> ncols x = ncols (hv ! a)"
      using a hq(3) hk(3) hv(3) dk kv fits
      by (intro attention_dropout_shape) simp_all
    then show ?thesis using a hq(3) hv(3) by auto
  qed
  from traverse_map_Inr [of "[0..<length hq]" ?att
      "\<lambda>a r. nrows (fst r) = nrows query \<and> ncols (fst r) = nat ?dk", OF each]
  obtain heads where
    heads: "traverse ?att [0..<length hq] = Inr heads" "length heads = nat ?h"
      "\<forall>a<nat ?h. nrows (fst (heads ! a)) = nrows query"
    using hq(2) by auto
  have ne: "heads \<noteq> []" using heads(2) h by auto
  then obtain r rs where hr: "heads = r # rs" by (cases heads) auto
  have r0: "nrows (fst r) = nrows query" using heads(3) h hr by (auto dest: spec [of _ 0])
  define x where "x = \<lparr>nrows = nrows query, ncols = d,
      elem = (\<lambda>i c. elem (map fst heads ! (c div nat ?dk)) i (c mod nat ?dk))\<rparr>"
  have cat: "concat_heads ?h ?dk (map fst heads) = Inr x"
    using h dk hd r0 by (simp add: concat_heads_def x_def hr)
  from Linear_forward_shape [OF l(4), of x] obtain y where
    y: "Linear_forward l3 x = Inr y" "nrows y = nrows query" "ncols y = d"
    by (auto simp: x_def)
  have "MultiHeadedAttention_forward self \<omega> query key value msk =
      Inr (y, self\<lparr>mha_attn := Some (map snd heads)\<rparr>)"
    unfolding MultiHeadedAttention_forward_def proj
    by (simp add: heads(1) cat) (simp add: fc y(1))
  then show ?thesis using y(2,3) by blast
qed

lemma PositionwiseFFN_forward_shape:
  assumes "PositionwiseFFN_ok self d d_ff" and "ncols x = d"
  shows "\<exists>y. PositionwiseFFN_forward self \<omega> x = Inr y \<and> nrows y = nrows x \<and> ncols y = d"
proof -
  from assms(1) have w: "Linear_ok (ffn_w_1 self) d d_ff" "Linear_ok (ffn_w_2 self) d_ff d"
    by (simp_all add: PositionwiseFFN_ok_def)
  from Linear_forward_shape [OF w(1) assms(2)] obtain y where
    y: "Linear_forward (ffn_w_1 self) x = Inr y" "nrows y = nrows x" "ncols y = d_ff" by blast
  let ?z = "Dropout_forward (ffn_dropout self) \<omega> (relu y)"
  have z: "ncols ?z = d_ff" "nrows ?z = nrows x"
    using y(2,3) by (simp_all add: Dropout_forward_shape relu_def tmap_def)
  from Linear_forward_shape [OF w(2) z(1)] z(2) show ?thesis
    by (simp add: PositionwiseFFN_forward_def y(1))
qed

lemma LayerNorm_forward_shape:
  assumes "LayerNorm_ok self d" and "ncols x = d" and "2 \<le> d"
  shows "\<exists>y. LayerNorm_forward self x = Inr y \<and> nrows y = nrows x \<and> ncols y = d"
proof -
  from assms have "2 \<le> ncols x" "nrows (ln_a_2 self) = 1" "ncols (ln_a_2 self) = ncols x"
    "nrows (ln_b_2 self) = 1" "ncols (ln_b_2 self) = ncols x" "0 < ln_eps self"
    by (simp_all add: LayerNorm_ok_def shaped_def)
  from LayerNorm_forward_elem [OF this] assms(2) show ?thesis by auto
qed

lemma SublayerConnection_forward_shape:
  assumes "LayerNorm_ok (sc_norm self) d" and "ncols x = d" and "2 \<le> d"
    and "\<And>n. nrows n = nrows x \<Longrightarrow> ncols n = d \<Longrightarrow>
           \<exists>s. sublayer n = Inr s \<and> nrows s = nrows x \<and> ncols s = d"
  shows "\<exists>y. SublayerConnection_forward self \<omega> x sublayer = Inr y \<and>
           nrows y = nrows x \<and> ncols y = d"
proof -
  from LayerNorm_forward_shape [OF assms(1,2,3)] obtain n where
    n: "LayerNorm_forward (sc_norm self) x = Inr n" "nrows n = nrows x" "ncols n = d" by blast
  from assms(4) [OF n(2,3)] obtain s where
    s: "sublayer n = Inr s" "nrows s = nrows x" "ncols s = d" by blast
  have "\<exists>y. broadcast_op (+) x (Dropout_forward (sc_dropout self) \<omega> s) = Inr y \<and>
      nrows y = nrows x \<and> ncols y = ncols x"
    using broadcast_op_same_shape [of "Dropout_forward (sc_dropout self) \<omega> s" x "(+)"]
      s(2,3) assms(2)
    by (auto simp: Dropout_forward_shape)
  then show ?thesis
    using assms(2) by (simp add: SublayerConnection_forward_def n(1) s(1))
qed

lemma EncoderBlock_forward_shape:
  assumes ok: "EncoderBlock_ok self d d_ff" and x: "ncols x = d" and d: "2 \<le> d"
    and fits: "mask_fits msk (nrows x) (nrows x)"
  shows "\<exists>y. EncoderBlock_forward self \<omega> x msk = Inr y \<and> nrows y = nrows x \<and> ncols y = d"
proof -
  from ok have att: "MultiHeadedAttention_ok (eb_self_attn self) d"
    and ffn: "PositionwiseFFN_ok (eb_ffn self) d d_ff"
    and len: "length (eb_sublayers self) = 2"
    and ln: "\<forall>s \<in> set (eb_sublayers self). LayerNorm_ok (sc_norm s) d"
    by (simp_all add: EncoderBlock_ok_def)
  let ?s0 = "eb_sublayers self ! 0" and ?s1 = "eb_sublayers self ! 1"
  have g: "getitem (eb_sublayers self) 0 = Inr ?s0" "getitem (eb_sublayers self) 1 = Inr ?s1"
    using len by (simp_all add: getitem_def)
  have ln0: "LayerNorm_ok (sc_norm ?s0) d" and ln1: "LayerNorm_ok (sc_norm ?s1) d"
    using ln len by (simp_all add: nth_mem)
  let ?f = "\<lambda>x. bnd (MultiHeadedAttention_forward (eb_self_attn self) (sub \<omega> 1) x x x msk)
                     (\<lambda>(y, _). Inr y)"
  have f: "\<exists>s. ?f n = Inr s \<and> nrows s = nrows x \<and> ncols s = d"
    if "nrows n = nrows x" "ncols n = d" for n
  proof -
    from MultiHeadedAttention_forward_shape [OF att that(2) that(2) that(2) refl, of msk "sub \<omega> 1"]
      fits that(1)
    obtain y self' where
      "MultiHeadedAttention_forward (eb_self_attn self) (sub \<omega> 1) n n n msk = Inr (y, self')"
      "nrows y = nrows n" "ncols y = d"
      by auto
    then show ?thesis using that(1) by simp
  qed
  from SublayerConnection_forward_shape [OF ln0 x d, of ?f "sub \<omega> 0"] f obtain x1 where
    x1: "SublayerConnection_forward ?s0 (sub \<omega> 0) x ?f = Inr x1" "nrows x1 = nrows x"
      "ncols x1 = d"
    by blast
  have "\<exists>s. PositionwiseFFN_forward (eb_ffn self) (sub \<omega> 3) n = Inr s \<and>
        nrows s = nrows x1 \<and> ncols s = d"
    if "nrows n = nrows x1" "ncols n = d" for n
    using PositionwiseFFN_forward_shape [OF ffn that(2), of "sub \<omega> 3"] that(1) by simp
  from SublayerConnection_forward_shape [OF ln1 x1(3) d, of _ "sub \<omega> 2"] this obtain y where
    y: "SublayerConnection_forward ?s1 (sub \<omega> 2) x1
          (PositionwiseFFN_forward (eb_ffn self) (sub \<omega> 3)) = Inr y"
      "nrows y = nrows x1" "ncols y = d"
    by blast
  show ?thesis
    unfolding EncoderBlock_forward_def using x1 y g by simp
qed

lemma run_layers_shape:
  assumes "\<And>k layer x. layer \<in> set layers \<Longrightarrow> nrows x = r \<Longrightarrow> ncols x = d \<Longrightarrow>
             \<exists>y. f k layer x = Inr y \<and> nrows y = r \<and> ncols y = d"
    and "nrows x = r" and "ncols x = d"
  shows "\<exists>y. run_layers f k layers x = Inr y \<and> nrows y = r \<and> ncols y = d"
  using assms
proof (induction layers arbitrary: k x)
  case Nil
  then show ?case by simp
next
  case (Cons layer layers)
  from Cons.prems(1) [of layer x k] Cons.prems(2,3) obtain y where
    y: "f k layer x = Inr y" "nrows y = r" "ncols y = d" by auto
  have "\<exists>z. run_layers f (Suc k) layers y = Inr z \<and> nrows z = r \<and> ncols z = d"
    using Cons.prems(1) y(2,3) by (intro Cons.IH) auto
  then show ?case using y(1) by simp
qed

lemma Encoder_forward_shape:
  assumes blocks: "\<forall>b \<in> set (enc_blocks self). EncoderBlock_ok b d d_ff"
    and ln: "LayerNorm_ok (enc_norm self) d"
    and x: "ncols x = d" and d: "2 \<le> d"
    and fits: "mask_fits msk (nrows x) (nrows x)"
  shows "\<exists>y. Encoder_forward self \<omega> x msk = Inr y \<and> nrows y = nrows x \<and> ncols y = d"
proof -
  let ?f = "\<lambda>k layer x. EncoderBlock_forward layer (sub \<omega> k) x msk"
  have "\<exists>y. ?f k layer z = Inr y \<and> nrows y = nrows x \<and> ncols y = d"
    if "layer \<in> set (enc_blocks self)" "nrows z = nrows x" "ncols z = d" for k layer z
    using EncoderBlock_forward_shape [of layer d d_ff z msk "sub \<omega> k"] that blocks d fits
    by auto
  from run_layers_shape [of "enc_blocks self" "nrows x" d ?f x 0, OF this refl x] obtain y where
    y: "run_layers ?f 0 (enc_blocks self) x = Inr y" "nrows y = nrows x" "ncols y = d"
    by blast
  from LayerNorm_forward_shape [OF ln y(3) d] y(1,2) show ?thesis
    by (simp add: Encoder_forward_def)
qed

lemma DecoderBlock_forward_shape:
  assumes ok: "DecoderBlock_ok self d d_ff" and x: "ncols x = d" and d: "2 \<le> d"
    and e: "ncols encoder_states = d"
    and tfits: "mask_fits target_mask (nrows x) (nrows x)"
    and sfits: "mask_fits source_mask (nrows x) (nrows encoder_states)"
  shows "\<exists>y. DecoderBlock_forward self \<omega> x encoder_states source_mask target_mask = Inr y \<and>
           nrows y = nrows x \<and> ncols y = d"
proof -
  from ok have att: "MultiHeadedAttention_ok (db_self_attn self) d"
    and eatt: "MultiHeadedAttention_ok (db_encoder_attn self) d"
    and ffn: "PositionwiseFFN_ok (db_ffn self) d d_ff"
    and len: "length (db_sublayers self) = 3"
    and ln: "\<forall>s \<in> set (db_sublayers self). LayerNorm_ok (sc_norm s) d"
    by (simp_all add: DecoderBlock_ok_def)
  let ?s0 = "db_sublayers self ! 0" and ?s1 = "db_sublayers self ! 1"
    and ?s2 = "db_sublayers self ! 2"
  have g: "getitem (db_sublayers self) 0 = Inr ?s0" "getitem (db_sublayers self) 1 = Inr ?s1"
    "getitem (db_sublayers self) 2 = Inr ?s2"
    using len by (simp_all add: getitem_def)
  have ln0: "LayerNorm_ok (sc_norm ?s0) d" and ln1: "LayerNorm_ok (sc_norm ?s1) d"
    and ln2: "LayerNorm_ok (sc_norm ?s2) d"
    using ln len by (simp_all add: nth_mem)
  let ?f = "\<lambda>x. bnd (MultiHeadedAttention_forward (db_self_attn self) (sub \<omega> 1) x x x target_mask)
                     (\<lambda>(y, _). Inr y)"
  let ?g = "\<lambda>x. bnd (MultiHeadedAttention_forward (db_encoder_attn self) (sub \<omega> 3)
                        x encoder_states encoder_states source_mask)
                     (\<lambda>(y, _). Inr y)"
  have f: "\<exists>s. ?f n = Inr s \<and> nrows s = nrows x \<and> ncols s = d"
    if "nrows n = nrows x" "ncols n = d" for n
  proof -
    from MultiHeadedAttention_forward_shape [OF att that(2) that(2) that(2) refl,
        of target_mask "sub \<omega> 1"] tfits that(1)
    obtain y self' where
      "MultiHeadedAttention_forward (db_self_attn self) (sub \<omega> 1) n n n target_mask = Inr (y, self')"
      "nrows y = nrows n" "ncols y = d"
      by auto
    then show ?thesis using that(1) by simp
  qed
  from SublayerConnection_forward_shape [OF ln0 x d, of ?f "sub \<omega> 0"] f obtain x1 where
    x1: "SublayerConnection_forward ?s0 (sub \<omega> 0) x ?f = Inr x1" "nrows x1 = nrows x"
      "ncols x1 = d"
    by blast
  have gg: "\<exists>s. ?g n = Inr s \<and> nrows s = nrows x1 \<and> ncols s = d"
    if "nrows n = nrows x1" "ncols n = d" for n
  proof -
    from MultiHeadedAttention_forward_shape [OF eatt that(2) e e refl,
        of source_mask "sub \<omega> 3"] sfits that(1) x1(2)
    obtain y self' where
      "MultiHeadedAttention_forward (db_encoder_attn self) (sub \<omega> 3) n encoder_states
         encoder_states source_mask = Inr (y, self')"
      "nrows y = nrows n" "ncols y = d"
      by auto
    then show ?thesis using that(1) by simp
  qed
  from SublayerConnection_forward_shape [OF ln1 x1(3) d, of ?g "sub \<omega> 2"] gg obtain x2 where
    x2: "SublayerConnection_forward ?s1 (sub \<omega> 2) x1 ?g = Inr x2" "nrows x2 = nrows x1"
      "ncols x2 = d"
    by blast
  have "\<exists>s. PositionwiseFFN_forward (db_ffn self) (sub \<omega> 5) n = Inr s \<and>
        nrows s = nrows x2 \<and> ncols s = d"
    if "nrows n = nrows x2" "ncols n = d" for n
    using PositionwiseFFN_forward_shape [OF ffn that(2), of "sub \<omega> 5"] that(1) by simp
  from SublayerConnection_forward_shape [OF ln2 x2(3) d, of _ "sub \<omega> 4"] this obtain y where
    y: "SublayerConnection_forward ?s2 (sub \<omega> 4) x2
          (PositionwiseFFN_forward (db_ffn self) (sub \<omega> 5)) = Inr y"
      "nrows y = nrows x2" "ncols y = d"
    by blast
  show ?thesis
    unfolding DecoderBlock_forward_def using x1 x2 y g by simp
qed

lemma log_softmax_row:
  assumes "0 < ncols t"
  shows "(\<Sum>j<ncols (log_softmax t). exp (elem (log_softmax t) i j)) = 1"
proof -
  let ?S = "\<Sum>k<ncols t. exp (elem t i k)"
  have S: "0 < ?S" using assms by (rule sum_exp_pos)
  have "(\<Sum>j<ncols t. exp (elem t i j - ln ?S)) = (\<Sum>j<ncols t. exp (elem t i j) / ?S)"
    using S by (simp add: exp_diff)
  also have "\<dots> = ?S / ?S" by (rule sum_divide_distrib [symmetric])
  also have "\<dots> = 1" using S by simp
  finally show ?thesis by (simp add: log_softmax_def)
qed

lemma Decoder_forward_shape:
  assumes blocks: "\<forall>b \<in> set (dec_blocks self). DecoderBlock_ok b d d_ff"
    and ln: "LayerNorm_ok (dec_norm self) d"
    and pr: "Linear_ok (dec_projection self) d v"
    and x: "ncols x = d" and d: "2 \<le> d" and v: "0 < v"
    and e: "ncols encoder_states = d"
    and tfits: "mask_fits target_mask (nrows x) (nrows x)"
    and sfits: "mask_fits source_mask (nrows x) (nrows encoder_states)"
  shows "\<exists>y. Decoder_forward self \<omega> x encoder_states source_mask target_mask = Inr y \<and>
           nrows y = nrows x \<and> ncols y = v \<and>
           (\<forall>i. (\<Sum>j<v. exp (elem y i j)) = 1)"
proof -
  let ?f = "\<lambda>k layer x. DecoderBlock_forward layer (sub \<omega> k) x encoder_states
                                     source_mask target_mask"
  have "\<exists>y. ?f k layer z = Inr y \<and> nrows y = nrows x \<and> ncols y = d"
    if "layer \<in> set (dec_blocks self)" "nrows z = nrows x" "ncols z = d" for k layer z
    using DecoderBlock_forward_shape [of layer d d_ff z encoder_states target_mask source_mask
        "sub \<omega> k"] that blocks d e tfits sfits
    by auto
  from run_layers_shape [of "dec_blocks self" "nrows x" d ?f x 0, OF this refl x] obtain x1 where
    x1: "run_layers ?f 0 (dec_blocks self) x = Inr x1" "nrows x1 = nrows x" "ncols x1 = d"
    by blast
  from LayerNorm_forward_shape [OF ln x1(3) d] obtain x2 where
    x2: "LayerNorm_forward (dec_norm self) x1 = Inr x2" "nrows x2 = nrows x1" "ncols x2 = d"
    by blast
  from Linear_forward_shape [OF pr x2(3)] obtain logits where
    l: "Linear_forward (dec_projection self) x2 = Inr logits" "nrows logits = nrows x2"
      "ncols logits = v"
    by blast
  have run: "Decoder_forward self \<omega> x encoder_states source_mask target_mask =
      Inr (log_softmax logits)"
    by (simp add: Decoder_forward_def x1(1) x2(1) l(1))
  have pos: "0 < ncols logits" using l(3) v by simp
  have "(\<Sum>j<v. exp (elem (log_softmax logits) i j)) = 1" for i
    using log_softmax_row [OF pos, of i] l(3) by (simp add: log_softmax_def)
  then show ?thesis
    using run l(2,3) x2(2) x1(2) by (simp add: log_softmax_def)
qed

lemma Sequential_forward_shape:
  assumes ok: "Embeddings_ok s v d len" and toks: "\<forall>t \<in> set x. t < v"
    and len: "length x \<le> len"
  shows "\<exists>y. Sequential_forward s \<omega> x = Inr y \<and> nrows y = length x \<and> ncols y = d"
proof -
  from ok have lut: "nrows (emb_lut (fst s)) = v" "ncols (emb_lut (fst s)) = d"
    and dm: "0 \<le> emb_d_model (fst s)"
    and pe: "len \<le> nrows (pe_pe (snd s))" "ncols (pe_pe (snd s)) = d"
    by (simp_all add: Embeddings_ok_def shaped_def)
  define e where "e = tmap (\<lambda>v. v * sqrt (real_of_int (emb_d_model (fst s))))
      \<lparr>nrows = length x, ncols = ncols (emb_lut (fst s)),
       elem = (\<lambda>i j. elem (emb_lut (fst s)) (x ! i) j)\<rparr>"
  have emb: "Embeddings_forward (fst s) x = Inr e"
    using toks lut dm by (simp add: Embeddings_forward_def embedding_def e_def)
  have es: "nrows e = length x" "ncols e = d"
    using lut by (simp_all add: e_def tmap_def)
  let ?p = "slice_rows (pe_pe (snd s)) (nrows e)"
  have ps: "nrows ?p = nrows e" "ncols ?p = ncols e"
    using pe len es by (simp_all add: slice_rows_def)
  from broadcast_op_same_shape [OF ps, of "(+)"] obtain y where
    y: "broadcast_op (+) e ?p = Inr y" "nrows y = nrows e" "ncols y = ncols e"
    by blast
  show ?thesis
    using y es by (simp add: Sequential_forward_def emb PositionalEncoding_forward_def
        Dropout_forward_shape)
qed

lemma EncoderDecoder_sample_shape:
  assumes ok: "EncoderDecoder_ok self d d_ff sv tv len"
    and d: "2 \<le> d" and tv: "0 < tv"
    and src: "\<forall>t \<in> set source. t < sv" "length source \<le> len"
    and tgt: "\<forall>t \<in> set target. t < tv" "length target \<le> len"
    and sm: "nrows source_mask = 1" "ncols source_mask = length source"
    and tm: "nrows target_mask = length target" "ncols target_mask = length target"
  shows "\<exists>y. EncoderDecoder_sample self \<omega> source target source_mask target_mask = Inr y \<and>
           nrows y = length target \<and> ncols y = tv \<and>
           (\<forall>i. (\<Sum>j<tv. exp (elem y i j)) = 1)"
proof -
  from ok have eb: "\<forall>b \<in> set (enc_blocks (ed_encoder self)). EncoderBlock_ok b d d_ff"
    and en: "LayerNorm_ok (enc_norm (ed_encoder self)) d"
    and db: "\<forall>b \<in> set (dec_blocks (ed_decoder self)). DecoderBlock_ok b d d_ff"
    and dn: "LayerNorm_ok (dec_norm (ed_decoder self)) d"
    and pr: "Linear_ok (dec_projection (ed_decoder self)) d tv"
    and se: "Embeddings_ok (ed_source_embeddings self) sv d len"
    and te: "Embeddings_ok (ed_target_embeddings self) tv d len"
    by (simp_all add: EncoderDecoder_ok_def)
  from Sequential_forward_shape [OF se src, of "sub \<omega> 0"] obtain s where
    s: "Sequential_forward (ed_source_embeddings self) (sub \<omega> 0) source = Inr s"
      "nrows s = length source" "ncols s = d"
    by blast
  have sfit: "mask_fits (Some source_mask) (nrows s) (nrows s)"
    using sm s(2) by (simp add: mask_fits_def)
  from Encoder_forward_shape [OF eb en s(3) d sfit, of "sub \<omega> 1"] obtain enc where
    enc: "Encoder_forward (ed_encoder self) (sub \<omega> 1) s (Some source_mask) = Inr enc"
      "nrows enc = nrows s" "ncols enc = d"
    by blast
  from Sequential_forward_shape [OF te tgt, of "sub \<omega> 2"] obtain t where
    t: "Sequential_forward (ed_target_embeddings self) (sub \<omega> 2) target = Inr t"
      "nrows t = length target" "ncols t = d"
    by blast
  have tfit: "mask_fits (Some target_mask) (nrows t) (nrows t)"
    using tm t(2) by (simp add: mask_fits_def)
  have sfit': "mask_fits (Some source_mask) (nrows t) (nrows enc)"
    using sm enc(2) s(2) by (simp add: mask_fits_def)
  from Decoder_forward_shape [OF db dn pr t(3) d tv enc(3) tfit sfit', of "sub \<omega> 3"]
  obtain y where
    y: "Decoder_forward (ed_decoder self) (sub \<omega> 3) t enc (Some source_mask) (Some target_mask)
          = Inr y"
      "nrows y = nrows t" "ncols y = tv" "\<forall>i. (\<Sum>j<tv. exp (elem y i j)) = 1"
    by blast
  show ?thesis
    using y t(2) s(1) enc(1) t(1) by (simp add: EncoderDecoder_sample_def)
qed

lemma xavier_Linear_ok: "Linear_ok l a b \<Longrightarrow> Linear_ok (xavier_Linear \<rho> l) a b"
  by (simp add: Linear_ok_def xavier_Linear_def xavier_uniform_def random_tensor_def shaped_def)

lemma xavier_MultiHeadedAttention_ok:
  assumes "MultiHeadedAttention_ok m d"
  shows "MultiHeadedAttention_ok (xavier_MultiHeadedAttention \<rho> m) d"
proof -
  have "Linear_ok l d d"
    if "l \<in> set (map (\<lambda>(k, l). xavier_Linear (subi \<rho> k) l) (enumerate 0 (mha_fc_layers m)))"
    for l
  proof -
    from that obtain k l' where "(k, l') \<in> set (enumerate 0 (mha_fc_layers m))"
      and l: "l = xavier_Linear (subi \<rho> k) l'"
      by auto
    then have "l' \<in> set (mha_fc_layers m)" by (auto simp: in_set_enumerate_eq)
    with assms have "Linear_ok l' d d" by (simp add: MultiHeadedAttention_ok_def)
    then show ?thesis unfolding l by (rule xavier_Linear_ok)
  qed
  then show ?thesis
    using assms by (simp add: MultiHeadedAttention_ok_def xavier_MultiHeadedAttention_def)
qed

lemma xavier_PositionwiseFFN_ok:
  "PositionwiseFFN_ok f d d_ff \<Longrightarrow> PositionwiseFFN_ok (xavier_PositionwiseFFN \<rho> f) d d_ff"
  by (simp add: PositionwiseFFN_ok_def xavier_PositionwiseFFN_def xavier_Linear_ok)

lemma xavier_EncoderBlock_ok:
  "EncoderBlock_ok b d d_ff \<Longrightarrow> EncoderBlock_ok (xavier_EncoderBlock \<rho> b) d d_ff"
  by (simp add: EncoderBlock_ok_def xavier_EncoderBlock_def xavier_MultiHeadedAttention_ok
      xavier_PositionwiseFFN_ok)

lemma xavier_DecoderBlock_ok:
  "DecoderBlock_ok b d d_ff \<Longrightarrow> DecoderBlock_ok (xavier_DecoderBlock \<rho> b) d d_ff"
  by (simp add: DecoderBlock_ok_def xavier_DecoderBlock_def xavier_MultiHeadedAttention_ok
      xavier_PositionwiseFFN_ok)

lemma xavier_Embeddings_ok:
  "Embeddings_ok (e, p) v d len \<Longrightarrow> Embeddings_ok (xavier_Embeddings \<rho> e, p) v d len"
  by (simp add: Embeddings_ok_def xavier_Embeddings_def xavier_uniform_def random_tensor_def
      shaped_def)

lemma xavier_EncoderDecoder_ok:
  assumes "EncoderDecoder_ok m d d_ff sv tv len"
  shows "EncoderDecoder_ok (xavier_EncoderDecoder \<rho> m) d d_ff sv tv len"
proof -
  from assms have eb: "\<forall>b \<in> set (enc_blocks (ed_encoder m)). EncoderBlock_ok b d d_ff"
    and en: "LayerNorm_ok (enc_norm (ed_encoder m)) d"
    and db: "\<forall>b \<in> set (dec_blocks (ed_decoder m)). DecoderBlock_ok b d d_ff"
    and dn: "LayerNorm_ok (dec_norm (ed_decoder m)) d"
    and pr: "Linear_ok (dec_projection (ed_decoder m)) d tv"
    and se: "Embeddings_ok (ed_source_embeddings m) sv d len"
    and te: "Embeddings_ok (ed_target_embeddings m) tv d len"
    by (simp_all add: EncoderDecoder_ok_def)
  have eb': "\<forall>b \<in> set (enc_blocks (xavier_Encoder (subi \<rho> 0) (ed_encoder m))).
      EncoderBlock_ok b d d_ff"
    using eb by (auto simp: xavier_Encoder_def in_set_enumerate_eq intro!: xavier_EncoderBlock_ok)
  have db': "\<forall>b \<in> set (dec_blocks (xavier_Decoder (subi \<rho> 1) (ed_decoder m))).
      DecoderBlock_ok b d d_ff"
    using db by (auto simp: xavier_Decoder_def in_set_enumerate_eq intro!: xavier_DecoderBlock_ok)
  have se': "Embeddings_ok (xavier_Embeddings (subi \<rho> 2) (fst (ed_source_embeddings m)),
      snd (ed_source_embeddings m)) sv d len"
    using se by (intro xavier_Embeddings_ok) simp
  have te': "Embeddings_ok (xavier_Embeddings (subi \<rho> 3) (fst (ed_target_embeddings m)),
      snd (ed_target_embeddings m)) tv d len"
    using te by (intro xavier_Embeddings_ok) simp
  show ?thesis
    unfolding EncoderDecoder_ok_def xavier_EncoderDecoder_def
    using eb' db' se' te' en dn pr
    by (simp add: xavier_Encoder_def xavier_Decoder_def xavier_Linear_ok)
qed

lemma Linear_init_shape:
  assumes "0 \<le> a" and "0 \<le> b"
  shows "\<exists>l. Linear_init \<rho> a b = Inr l \<and> Linear_ok l (nat a) (nat b)"
  using assms by (simp add: Linear_init_def Linear_ok_def shaped_def random_tensor_def)

lemma LayerNorm_init_shape:
  assumes "0 \<le> f"
  shows "\<exists>n. LayerNorm_init f = Inr n \<and> LayerNorm_ok n (nat f)"
  using assms by (simp add: LayerNorm_init_def LayerNorm_ok_def shaped_def const_tensor_def)

lemma SublayerConnection_init_shape:
  assumes "0 \<le> f" and "0 \<le> p" and "p \<le> 1"
  shows "\<exists>s. SublayerConnection_init f p = Inr s \<and> LayerNorm_ok (sc_norm s) (nat f)"
proof -
  from LayerNorm_init_shape [OF assms(1)] obtain n where
    "LayerNorm_init f = Inr n" "LayerNorm_ok n (nat f)" by blast
  then show ?thesis
    using assms(2,3) by (simp add: SublayerConnection_init_def Dropout_init_def)
qed

lemma MultiHeadedAttention_init_shape:
  assumes "0 < h" and "h dvd d_model" and "0 < d_model" and "0 \<le> p" and "p \<le> 1"
  shows "\<exists>m. MultiHeadedAttention_init \<rho> h d_model p = Inr m \<and>
           MultiHeadedAttention_ok m (nat d_model)"
proof -
  from Linear_init_shape [of d_model d_model \<rho>] assms(3) obtain fc where
    fc: "Linear_init \<rho> d_model d_model = Inr fc" "Linear_ok fc (nat d_model) (nat d_model)"
    by auto
  have dk: "0 < d_model div h"
    using assms(1,2,3) by (simp add: pos_imp_zdiv_pos_iff zdvd_imp_le)
  have "nat h * nat (d_model div h) = nat (h * (d_model div h))"
    using assms(1) dk by (simp add: nat_mult_distrib)
  also have "\<dots> = nat d_model" using assms(2) by simp
  finally have prod: "nat h * nat (d_model div h) = nat d_model" .
  show ?thesis
    using assms fc dk prod
    by (simp add: MultiHeadedAttention_init_def Dropout_init_def MultiHeadedAttention_ok_def
        clones_def mod_eq_0_iff_dvd)
qed

lemma PositionwiseFFN_init_shape:
  assumes "0 \<le> d_model" and "0 \<le> d_ff" and "0 \<le> p" and "p \<le> 1"
  shows "\<exists>f. PositionwiseFFN_init \<rho> d_model d_ff p = Inr f \<and>
           PositionwiseFFN_ok f (nat d_model) (nat d_ff)"
proof -
  from Linear_init_shape [OF assms(1,2)] obtain w1 where
    w1: "Linear_init (subi \<rho> 0) d_model d_ff = Inr w1" "Linear_ok w1 (nat d_model) (nat d_ff)"
    by blast
  from Linear_init_shape [OF assms(2,1)] obtain w2 where
    w2: "Linear_init (subi \<rho> 1) d_ff d_model = Inr w2" "Linear_ok w2 (nat d_ff) (nat d_model)"
    by blast
  show ?thesis
    using w1 w2 assms(3,4)
    by (simp add: PositionwiseFFN_init_def Dropout_init_def PositionwiseFFN_ok_def)
qed

lemma PositionalEncoding_init_shape:
  assumes "0 < d_model" and "even d_model" and "0 \<le> p" and "p \<le> 1"
  shows "\<exists>pe. PositionalEncoding_init d_model p max_len = Inr pe \<and>
           nrows (pe_pe pe) = max_len \<and> ncols (pe_pe pe) = nat d_model"
  using assms by (simp add: PositionalEncoding_init_def Dropout_init_def)

lemma PositionalEncoding_init_one:
  assumes "0 \<le> p" and "p \<le> 1"
  shows "\<exists>pe. PositionalEncoding_init 1 p max_len = Inr pe \<and>
           nrows (pe_pe pe) = max_len \<and> ncols (pe_pe pe) = 1 \<and>
           (\<forall>pos. elem (pe_pe pe) pos 0 = sin (real pos * div_term 1 0))"
  using assms by (simp add: PositionalEncoding_init_def Dropout_init_def)

lemma Embeddings_init_shape:
  assumes "0 \<le> d_model" and "0 \<le> v"
  shows "\<exists>e. Embeddings_init \<rho> d_model v = Inr e \<and> shaped (emb_lut e) (nat v) (nat d_model) \<and>
           0 \<le> emb_d_model e"
  using assms by (simp add: Embeddings_init_def shaped_def random_tensor_def)

lemma build_model_ok:
  assumes h: "0 < h" "h dvd d_model" and d: "0 < d_model" "even d_model"
    and ff: "0 \<le> d_ff" and sv: "0 \<le> source_vocabulary" and tv: "0 \<le> target_vocabulary"
    and p: "0 \<le> dropout" "dropout \<le> 1"
  shows "\<exists>m. build_model \<rho> \<rho>x source_vocabulary target_vocabulary N d_model d_ff h dropout = Inr m \<and>
           EncoderDecoder_ok m (nat d_model) (nat d_ff) (nat source_vocabulary)
             (nat target_vocabulary) 5000"
proof -
  have d0: "0 \<le> d_model" using d(1) by simp
  from MultiHeadedAttention_init_shape [OF h d(1), of "1 / 10" "subi \<rho> 0"] obtain attn where
    attn: "MultiHeadedAttention_init (subi \<rho> 0) h d_model (1 / 10) = Inr attn"
      "MultiHeadedAttention_ok attn (nat d_model)"
    by auto
  from PositionwiseFFN_init_shape [OF d0 ff p, of "subi \<rho> 1"] obtain ffn where
    ffn: "PositionwiseFFN_init (subi \<rho> 1) d_model d_ff dropout = Inr ffn"
      "PositionwiseFFN_ok ffn (nat d_model) (nat d_ff)"
    by blast
  from PositionalEncoding_init_shape [OF d p, of 5000] obtain pos where
    pos: "PositionalEncoding_init d_model dropout 5000 = Inr pos"
      "nrows (pe_pe pos) = 5000" "ncols (pe_pe pos) = nat d_model"
    by blast
  from SublayerConnection_init_shape [OF d0 p] obtain s where
    s: "SublayerConnection_init d_model dropout = Inr s" "LayerNorm_ok (sc_norm s) (nat d_model)"
    by blast
  from LayerNorm_init_shape [OF d0] obtain n where
    n: "LayerNorm_init d_model = Inr n" "LayerNorm_ok n (nat d_model)"
    by blast
  from Linear_init_shape [OF d0 tv, of "subi \<rho> 2"] obtain pr where
    pr: "Linear_init (subi \<rho> 2) d_model target_vocabulary = Inr pr"
      "Linear_ok pr (nat d_model) (nat target_vocabulary)"
    by blast
  from Embeddings_init_shape [OF d0 sv, of "subi \<rho> 3"] obtain se where
    se: "Embeddings_init (subi \<rho> 3) d_model source_vocabulary = Inr se"
      "shaped (emb_lut se) (nat source_vocabulary) (nat d_model)" "0 \<le> emb_d_model se"
    by blast
  from Embeddings_init_shape [OF d0 tv, of "subi \<rho> 4"] obtain te where
    te: "Embeddings_init (subi \<rho> 4) d_model target_vocabulary = Inr te"
      "shaped (emb_lut te) (nat target_vocabulary) (nat d_model)" "0 \<le> emb_d_model te"
    by blast
  define eb where "eb = \<lparr>eb_self_attn = attn, eb_ffn = ffn, eb_sublayers = clones s 2,
      eb_size = d_model\<rparr>"
  define db where "db = \<lparr>db_size = d_model, db_self_attn = attn, db_encoder_attn = attn,
      db_ffn = ffn, db_sublayers = clones s 3\<rparr>"
  define m0 where "m0 = \<lparr>ed_encoder = \<lparr>enc_blocks = clones eb N, enc_norm = n\<rparr>,
      ed_decoder = \<lparr>dec_blocks = clones db N, dec_norm = n, dec_projection = pr\<rparr>,
      ed_source_embeddings = (se, pos), ed_target_embeddings = (te, pos)\<rparr>"
  have ebok: "EncoderBlock_ok eb (nat d_model) (nat d_ff)"
    using attn(2) ffn(2) s(2) by (simp add: EncoderBlock_ok_def eb_def clones_def)
  have dbok: "DecoderBlock_ok db (nat d_model) (nat d_ff)"
    using attn(2) ffn(2) s(2) by (simp add: DecoderBlock_ok_def db_def clones_def)
  have ok0: "EncoderDecoder_ok m0 (nat d_model) (nat d_ff) (nat source_vocabulary)
      (nat target_vocabulary) 5000"
    using ebok dbok n(2) pr(2) se(2,3) te(2,3) pos(2,3)
    by (simp add: EncoderDecoder_ok_def m0_def clones_def Embeddings_ok_def)
  have "build_model \<rho> \<rho>x source_vocabulary target_vocabulary N d_model d_ff h dropout =
      Inr (xavier_EncoderDecoder \<rho>x m0)"
    using attn(1) ffn(1) pos(1) s(1) n(1) pr(1) se(1) te(1)
    by (simp add: build_model_def EncoderBlock_init_def Encoder_init_def DecoderBlock_init_def
        Decoder_init_def eb_def db_def m0_def)
  with xavier_EncoderDecoder_ok [OF ok0] show ?thesis by blast
qed

text \<open>
  Claim C7. For every outcome of the random initialisation and every outcome of the
  dropout draws, the model that \<open>build_model\<close> makes for vocabularies of size 5 with
  \<open>N = 1\<close>, \<open>d_model = 8\<close>, \<open>d_ff = 16\<close> and \<open>h = 2\<close> is built without error, and
  its forward pass on the batch of the one source sequence \<open>[1, 2, 3, 4]\<close> and the one
  target sequence \<open>[1, 2, 3]\<close> with all-true masks returns one tensor of 3 rows and 5
  columns, the shape \<open>[1, 3, 5]\<close>. The exponentials of every row sum to 1, because the
  decoder ends with \<open>log_softmax\<close> over the vocabulary axis; over the reals the sum is
  exactly 1.
\<close>

theorem forward_pass_log_probabilities:
  "\<exists>model out.
     build_model \<rho> \<rho>x 5 5 1 8 16 2 (1 / 10) = Inr model \<and>
     EncoderDecoder_forward model \<omega> [[1, 2, 3, 4]] [[1, 2, 3]]
       [const_tensor True 1 4] [const_tensor True 3 3] = Inr [out] \<and>
     nrows out = 3 \<and> ncols out = 5 \<and>
     (\<forall>i<3. (\<Sum>j<5. exp (elem out i j)) = 1)"
proof -
  from build_model_ok [of 2 8 16 5 5 "1 / 10" \<rho> \<rho>x 1] obtain model where
    m: "build_model \<rho> \<rho>x 5 5 1 8 16 2 (1 / 10) = Inr model"
    and ok: "EncoderDecoder_ok model 8 16 5 5 5000"
    by auto
  have "\<exists>y. EncoderDecoder_sample model (sub \<omega> 0) [1, 2, 3, 4] [1, 2, 3]
      (const_tensor True 1 4) (const_tensor True 3 3) = Inr y \<and>
      nrows y = length [1, 2, 3 :: nat] \<and> ncols y = 5 \<and> (\<forall>i. (\<Sum>j<5. exp (elem y i j)) = 1)"
    by (rule EncoderDecoder_sample_shape [OF ok]) (simp_all add: const_tensor_def)
  then obtain out where
    out: "EncoderDecoder_sample model (sub \<omega> 0) [1, 2, 3, 4] [1, 2, 3]
      (const_tensor True 1 4) (const_tensor True 3 3) = Inr out"
      "nrows out = 3" "ncols out = 5" "\<forall>i. (\<Sum>j<5. exp (elem out i j)) = 1"
    by auto
  have "EncoderDecoder_forward model \<omega> [[1, 2, 3, 4]] [[1, 2, 3]]
       [const_tensor True 1 4] [const_tensor True 3 3] = Inr [out]"
    using out(1) by (simp add: EncoderDecoder_forward_def)
  with m out(2,3,4) show ?thesis by blast
qed

theorem forward_pass_log_probabilities_witness:
  "\<exists>model out.
     build_model (\<lambda>idx. 0) (\<lambda>idx. 1) 5 5 1 8 16 2 (1 / 10) = Inr model \<and>
     EncoderDecoder_forward model keep_all [[1, 2, 3, 4]] [[1, 2, 3]]
       [const_tensor True 1 4] [const_tensor True 3 3] = Inr [out] \<and>
     nrows out = 3 \<and> ncols out = 5 \<and>
     (\<Sum>j<5. exp (elem out 0 j)) = 1 \<and> (\<Sum>j<5. exp (elem out 2 j)) = 1"
  using forward_pass_log_probabilities [of "\<lambda>idx. 0" "\<lambda>idx. 1" keep_all]
  by fastforce


section \<open>The weights that attention returns and the module stores\<close>

lemma attention_without_dropout:
  assumes "attention query key value msk (Some f) = Inr (x, p)"
    and "\<And>t. ncols (f t) = ncols t"
  shows "\<exists>x0 p0. attention query key value msk None = Inr (x0, p0) \<and> p = f p0"
proof -
  from assms(1) obtain s where
    s: "bnd (matmul query (transpose_t key)) (\<lambda>qk.
      bnd (div_scalar qk (sqrt (real (ncols query)))) (\<lambda>scores.
      (case msk of None \<Rightarrow> Inr scores
           | Some m \<Rightarrow> masked_fill scores (eq0 m) (- (10 ^ 9))))) = Inr s"
    and p: "p = f (softmax s)" and x: "matmul (f (softmax s)) value = Inr x"
    unfolding attention_split by (auto simp: bnd_Inr_iff)
  from x have "ncols (f (softmax s)) = nrows value"
    by (auto simp: matmul_def split: if_splits)
  then have "ncols (softmax s) = nrows value" by (simp add: assms(2))
  then show ?thesis
    unfolding attention_split s using p by (simp add: matmul_def)
qed

lemma view_heads_length:
  assumes "view_heads h d_k y = Inr hs"
  shows "0 < h \<and> length hs = nat h"
  using assms by (auto simp: view_heads_def Let_def split: if_splits)

lemma head_projection_length:
  assumes "head_projection self l x = Inr hs"
  shows "0 < mha_h self \<and> length hs = nat (mha_h self)"
  using assms view_heads_length by (auto simp: head_projection_def bnd_Inr_iff)

lemma MultiHeadedAttention_forward_stores:
  assumes "MultiHeadedAttention_forward self \<omega> query key value msk = Inr (y, self')"
  shows "\<exists>l0 l1 l2 rest q k v ws.
     mha_fc_layers self = l0 # l1 # l2 # rest \<and>
     head_projection self l0 query = Inr q \<and>
     head_projection self l1 key = Inr k \<and>
     head_projection self l2 value = Inr v \<and>
     self' = self\<lparr>mha_attn := Some ws\<rparr> \<and>
     0 < mha_h self \<and> length ws = nat (mha_h self) \<and>
     (\<forall>a<nat (mha_h self). \<exists>x0 p0.
        attention (q ! a) (k ! a) (v ! a) msk None = Inr (x0, p0) \<and>
        ws ! a = Dropout_forward (mha_dropout self) (sub \<omega> a) p0)"
proof -
  let ?F = "\<lambda>(l, x). bnd (Linear_forward l x) (view_heads (mha_h self) (mha_d_k self))"
  from assms obtain projections where
    pr: "traverse ?F (zip (mha_fc_layers self) [query, key, value]) = Inr projections"
    and rest: "(case projections of
       [query, key, value] \<Rightarrow>
         bnd (traverse (\<lambda>a. attention (query ! a) (key ! a) (value ! a) msk
                               (Some (Dropout_forward (mha_dropout self) (sub \<omega> a))))
                [0..<length query]) (\<lambda>heads.
         bnd (concat_heads (mha_h self) (mha_d_k self) (map fst heads)) (\<lambda>x.
         bnd (case mha_fc_layers self of [] \<Rightarrow> Inl IndexError
              | _ \<Rightarrow> Linear_forward (last (mha_fc_layers self)) x) (\<lambda>y.
           Inr (y, self\<lparr>mha_attn := Some (map snd heads)\<rparr>))))
     | _ \<Rightarrow> Inl ValueError) = Inr (y, self')"
    unfolding MultiHeadedAttention_forward_def by (auto simp: bnd_Inr_iff)
  from rest obtain q k v where p3: "projections = [q, k, v]"
    by (auto split: list.splits)
  from traverse_Inr [OF pr] have "length (zip (mha_fc_layers self) [query, key, value]) = 3"
    by (simp add: p3)
  then have "3 \<le> length (mha_fc_layers self)"
    by simp
  then obtain l0 l1 l2 rest' where fc: "mha_fc_layers self = l0 # l1 # l2 # rest'"
    by (metis Suc_le_length_iff numeral_3_eq_3)
  from pr have hq: "head_projection self l0 query = Inr q"
    and hk: "head_projection self l1 key = Inr k"
    and hv: "head_projection self l2 value = Inr v"
    unfolding fc p3 head_projection_def by (auto simp: bnd_Inr_iff)
  from head_projection_length [OF hq] have h: "0 < mha_h self" "length q = nat (mha_h self)"
    by simp_all
  from rest p3 obtain heads where
    hd: "traverse (\<lambda>a. attention (q ! a) (k ! a) (v ! a) msk
                               (Some (Dropout_forward (mha_dropout self) (sub \<omega> a))))
                [0..<length q] = Inr heads"
    and s: "self' = self\<lparr>mha_attn := Some (map snd heads)\<rparr>"
    by (auto simp: bnd_Inr_iff)
  from traverse_Inr [OF hd] have
    len: "length heads = length q"
    and each: "\<forall>a<length q. attention (q ! a) (k ! a) (v ! a) msk
        (Some (Dropout_forward (mha_dropout self) (sub \<omega> a))) = Inr (heads ! a)"
    by simp_all
  have "\<exists>x0 p0. attention (q ! a) (k ! a) (v ! a) msk None = Inr (x0, p0) \<and>
        map snd heads ! a = Dropout_forward (mha_dropout self) (sub \<omega> a) p0"
    if "a < nat (mha_h self)" for a
  proof -
    from that h(2) have a: "a < length q" by simp
    with each have "attention (q ! a) (k ! a) (v ! a) msk
        (Some (Dropout_forward (mha_dropout self) (sub \<omega> a)))
        = Inr (fst (heads ! a), snd (heads ! a))"
      by simp
    from attention_without_dropout [OF this] obtain x0 p0 where
      "attention (q ! a) (k ! a) (v ! a) msk None = Inr (x0, p0)"
      "snd (heads ! a) = Dropout_forward (mha_dropout self) (sub \<omega> a) p0"
      by (auto simp: Dropout_forward_shape)
    moreover have "map snd heads ! a = snd (heads ! a)"
      using a len by simp
    ultimately show ?thesis by auto
  qed
  then show ?thesis using fc hq hk hv s h len by auto
qed

lemma attention_weights_columns:
  assumes "attention query key value msk None = Inr (x0, p0)"
  shows "ncols p0 = nrows value"
  using assms unfolding attention_split
  by (auto simp: bnd_Inr_iff matmul_def split: if_splits)

lemma sub_keep_all: "sub keep_all a = keep_all"
  by (rule ext) (simp add: sub_def keep_all_def)

text \<open>
  Claim C9. The weight tensor \<open>attention\<close> returns when a dropout callable is supplied is
  the callable applied to the weights it returns without dropout, and it is that tensor
  which multiplies the values. \<open>MultiHeadedAttention.forward\<close> replaces \<open>self.attn\<close>, and
  nothing else of the module, by the list of one weight tensor per head, \<open>h\<close> of them
  with \<open>h\<close> positive: the tensor of head \<open>a\<close> is the module's dropout applied to the weights
  that \<open>attention\<close> returns without dropout on the \<open>a\<close>-th head of the projected query,
  key and value (the first three layers of \<open>fc_layers\<close> applied to the three inputs).
  With a dropout module in training mode and \<open>0 < p < 1\<close>, under the draw that keeps
  every element each returned row sums to \<open>1 / (1 - p)\<close>, not to 1.
\<close>

theorem returned_weights_are_post_dropout:
  "(\<forall>query key value msk f x p x0 p0.
      attention query key value msk (Some f) = Inr (x, p) \<longrightarrow>
      attention query key value msk None = Inr (x0, p0) \<longrightarrow>
      p = f p0 \<and> matmul p value = Inr x) \<and>
   (\<forall>self \<omega> query key value msk y self'.
      MultiHeadedAttention_forward self \<omega> query key value msk = Inr (y, self') \<longrightarrow>
      (\<exists>l0 l1 l2 rest q k v ws.
         mha_fc_layers self = l0 # l1 # l2 # rest \<and>
         head_projection self l0 query = Inr q \<and>
         head_projection self l1 key = Inr k \<and>
         head_projection self l2 value = Inr v \<and>
         self' = self\<lparr>mha_attn := Some ws\<rparr> \<and>
         0 < mha_h self \<and> length ws = nat (mha_h self) \<and>
         (\<forall>a<nat (mha_h self). \<exists>x0 p0.
            attention (q ! a) (k ! a) (v ! a) msk None = Inr (x0, p0) \<and>
            ws ! a = Dropout_forward (mha_dropout self) (sub \<omega> a) p0))) \<and>
   (\<forall>query key value msk d x0 p0.
      attention query key value msk None = Inr (x0, p0) \<longrightarrow> 0 < ncols p0 \<longrightarrow>
      do_training d \<longrightarrow> 0 < do_p d \<longrightarrow> do_p d < 1 \<longrightarrow>
      (\<exists>x p. attention query key value msk (Some (Dropout_forward d keep_all)) = Inr (x, p) \<and>
         (\<forall>i. (\<Sum>j<ncols p. elem p i j) = 1 / (1 - do_p d) \<and> (\<Sum>j<ncols p. elem p i j) \<noteq> 1)))"
proof (intro conjI allI impI)
  fix query key "value" :: "real tensor" and msk f x p x0 p0
  assume "attention query key value msk (Some f) = Inr (x, p)"
    and "attention query key value msk None = Inr (x0, p0)"
  then show "p = f p0" and "matmul p value = Inr x"
    using attention_dropout_after_softmax by blast+
next
  fix self \<omega> and query key "value" :: "real tensor" and msk y self'
  assume "MultiHeadedAttention_forward self \<omega> query key value msk = Inr (y, self')"
  then show "\<exists>l0 l1 l2 rest q k v ws.
         mha_fc_layers self = l0 # l1 # l2 # rest \<and>
         head_projection self l0 query = Inr q \<and>
         head_projection self l1 key = Inr k \<and>
         head_projection self l2 value = Inr v \<and>
         self' = self\<lparr>mha_attn := Some ws\<rparr> \<and>
         0 < mha_h self \<and> length ws = nat (mha_h self) \<and>
         (\<forall>a<nat (mha_h self). \<exists>x0 p0.
            attention (q ! a) (k ! a) (v ! a) msk None = Inr (x0, p0) \<and>
            ws ! a = Dropout_forward (mha_dropout self) (sub \<omega> a) p0)"
    by (rule MultiHeadedAttention_forward_stores)
next
  fix query key "value" :: "real tensor" and msk and d :: Dropout and x0 p0
  assume a: "attention query key value msk None = Inr (x0, p0)" and n: "0 < ncols p0"
    and d: "do_training d" "0 < do_p d" "do_p d < 1"
  let ?f = "Dropout_forward d keep_all"
  from attention_with_dropout [OF a, of ?f] obtain x where
    x: "attention query key value msk (Some ?f) = Inr (x, ?f p0)"
    by (auto simp: Dropout_forward_shape)
  have sum: "(\<Sum>j<ncols (?f p0). elem (?f p0) i j) = 1 / (1 - do_p d)" for i
    using Dropout_keep_all_row_sum [where d = d and n = "ncols p0" and t = p0 and i = i] d
      attention_any_mask_rows_sum [OF a n, of i]
    by (simp add: Dropout_forward_shape)
  have "1 / (1 - do_p d) \<noteq> 1" using d by (simp add: field_simps)
  with sum x show "\<exists>x p. attention query key value msk (Some ?f) = Inr (x, p) \<and>
         (\<forall>i. (\<Sum>j<ncols p. elem p i j) = 1 / (1 - do_p d) \<and> (\<Sum>j<ncols p. elem p i j) \<noteq> 1)"
    by auto
qed

theorem returned_weights_are_post_dropout_witness:
  "(\<exists>x p. attention (tensor_of [[1, 2]]) (tensor_of [[1, 2], [3, 4]]) (tensor_of [[5, 6], [7, 8]])
            None (Some (Dropout_forward \<lparr>do_p = 1 / 10, do_training = True\<rparr> keep_all))
            = Inr (x, p) \<and>
          (\<Sum>j<ncols p. elem p 0 j) = 10 / 9) \<and>
   (\<exists>y self' ws.
      MultiHeadedAttention_forward
        \<lparr>mha_d_k = 1, mha_h = 2,
         mha_fc_layers = replicate 4 \<lparr>lin_weight = tensor_of [[1, 0], [0, 1]],
                                        lin_bias = tensor_of [[0, 0]]\<rparr>,
         mha_attn = None, mha_dropout = \<lparr>do_p = 1 / 10, do_training = True\<rparr>\<rparr>
        keep_all (tensor_of [[1, 2]]) (tensor_of [[1, 2]]) (tensor_of [[1, 2]]) None
        = Inr (y, self') \<and>
      mha_attn self' = Some ws \<and> length ws = 2 \<and>
      (\<forall>a<2. ncols (ws ! a) = 1 \<and> row_sum (ws ! a) 0 = 10 / 9))"
proof
  let ?q = "tensor_of [[1, 2 :: real]]"
  let ?k = "tensor_of [[1, 2], [3, 4 :: real]]"
  let ?v = "tensor_of [[5, 6], [7, 8 :: real]]"
  let ?d = "\<lparr>do_p = 1 / 10, do_training = True\<rparr>"
  from attention_weights [of ?k ?q ?v None] obtain x0 p0 where
    a: "attention ?q ?k ?v None None = Inr (x0, p0)" and n: "ncols p0 = nrows ?k"
    by (auto simp: tensor_of_def mask_fits_def)
  have n': "0 < ncols p0" using n by (simp add: tensor_of_def)
  have d: "do_training ?d" "0 < do_p ?d" "do_p ?d < 1" by simp_all
  from returned_weights_are_post_dropout a n' d
  have "\<exists>x p. attention ?q ?k ?v None (Some (Dropout_forward ?d keep_all)) = Inr (x, p) \<and>
         (\<forall>i. (\<Sum>j<ncols p. elem p i j) = 1 / (1 - do_p ?d) \<and> (\<Sum>j<ncols p. elem p i j) \<noteq> 1)"
    by blast
  then show "\<exists>x p. attention ?q ?k ?v None (Some (Dropout_forward ?d keep_all)) = Inr (x, p) \<and>
      (\<Sum>j<ncols p. elem p 0 j) = 10 / 9"
    by auto
next
  let ?d = "\<lparr>do_p = 1 / 10, do_training = True\<rparr>"
  let ?l = "\<lparr>lin_weight = tensor_of [[1, 0], [0, 1 :: real]], lin_bias = tensor_of [[0, 0 :: real]]\<rparr>"
  let ?m = "\<lparr>mha_d_k = 1, mha_h = 2, mha_fc_layers = replicate 4 ?l,
             mha_attn = None, mha_dropout = ?d\<rparr>"
  let ?x = "tensor_of [[1, 2 :: real]]"
  have lin: "Linear_ok ?l 2 2"
    by (simp add: Linear_ok_def shaped_def tensor_of_def)
  then have ok: "MultiHeadedAttention_ok ?m 2"
    by (simp add: MultiHeadedAttention_ok_def)
  have x: "ncols ?x = 2" "nrows ?x = 1" by (simp_all add: tensor_of_def)
  from MultiHeadedAttention_forward_shape [OF ok x(1) x(1) x(1) refl, of None keep_all]
  obtain y self' where
    f: "MultiHeadedAttention_forward ?m keep_all ?x ?x ?x None = Inr (y, self')"
    by (auto simp: mask_fits_def)
  from returned_weights_are_post_dropout f obtain l0 l1 l2 rest q k v ws where
    fc: "mha_fc_layers ?m = l0 # l1 # l2 # rest"
    and hv: "head_projection ?m l2 ?x = Inr v"
    and s: "self' = ?m\<lparr>mha_attn := Some ws\<rparr>"
    and len: "length ws = nat (mha_h ?m)"
    and each: "\<forall>a<nat (mha_h ?m). \<exists>x0 p0.
            attention (q ! a) (k ! a) (v ! a) None None = Inr (x0, p0) \<and>
            ws ! a = Dropout_forward (mha_dropout ?m) (sub keep_all a) p0"
    by blast
  from fc have l2: "l2 = ?l" by (auto simp: numeral_eq_Suc)
  from project_shape [OF lin x(1), of 2 1] obtain hs where
    "bnd (Linear_forward ?l ?x) (view_heads 2 1) = Inr hs"
    "\<forall>a<nat 2. nrows (hs ! a) = nrows ?x \<and> ncols (hs ! a) = nat 1"
    by auto
  with hv l2 have vrows: "\<forall>a<2. nrows (v ! a) = 1"
    by (simp add: head_projection_def x(2))
  have "ncols (ws ! a) = 1 \<and> row_sum (ws ! a) 0 = 10 / 9" if "a < 2" for a
  proof -
    from each that obtain x0 p0 where
      a: "attention (q ! a) (k ! a) (v ! a) None None = Inr (x0, p0)"
      and w: "ws ! a = Dropout_forward ?d keep_all p0"
      by (auto simp: sub_keep_all)
    from attention_weights_columns [OF a] vrows that have n: "ncols p0 = 1" by simp
    then have "0 < ncols p0" by simp
    from attention_any_mask_rows_sum [OF a this, of 0] have "(\<Sum>j<ncols p0. elem p0 0 j) = 1" .
    then have "row_sum (ws ! a) 0 = 1 / (1 - 1 / 10)"
      unfolding row_sum_def w
      using Dropout_keep_all_row_sum [where d = ?d and n = "ncols p0" and t = p0 and i = 0]
      by (simp add: Dropout_forward_shape)
    then show ?thesis using n by (simp add: w Dropout_forward_shape)
  qed
  then have "\<forall>a<2. ncols (ws ! a) = 1 \<and> row_sum (ws ! a) 0 = 10 / 9" by blast
  with f s len show "\<exists>y self' ws.
      MultiHeadedAttention_forward ?m keep_all ?x ?x ?x None = Inr (y, self') \<and>
      mha_attn self' = Some ws \<and> length ws = 2 \<and>
      (\<forall>a<2. ncols (ws ! a) = 1 \<and> row_sum (ws ! a) 0 = 10 / 9)"
    by auto
qed

end
